theory Spec2Isabelle
  imports Complex_Main
begin

section \<open>JavaScript values\<close>

text \<open>
  A JavaScript number is NaN, an infinity or a finite value. The code below only copies
  and compares numbers (\<open><\<close>, \<open>>\<close>), so a finite value is a real; every comparison
  with NaN is false. The two zeros are not told apart.
\<close>

datatype jsnum = NaN | NegInf | Fin real | PosInf

fun js_lt :: "jsnum \<Rightarrow> jsnum \<Rightarrow> bool" where
  "js_lt NaN b = False"
| "js_lt a NaN = False"
| "js_lt NegInf NegInf = False"
| "js_lt NegInf b = True"
| "js_lt (Fin a) NegInf = False"
| "js_lt (Fin a) (Fin b) = (a < b)"
| "js_lt (Fin a) PosInf = True"
| "js_lt PosInf b = False"

definition js_gt :: "jsnum \<Rightarrow> jsnum \<Rightarrow> bool" where
  "js_gt a b = js_lt b a"

text \<open>\<open>undefined\<close> is \<open>None\<close>. \<open>defaultValue(a, b)\<close> is \<open>a\<close> unless it is undefined;
  both arguments are evaluated before the call, as in JavaScript.\<close>

definition defaultValue :: "'a option \<Rightarrow> 'a \<Rightarrow> 'a" where
  "defaultValue a b = (case a of None \<Rightarrow> b | Some v \<Rightarrow> v)"

text \<open>String conversion of a value that may be \<open>null\<close>, as \<open>'..' + v\<close> does it.\<close>

definition toStringJS :: "string option \<Rightarrow> string" where
  "toStringJS v = (case v of None \<Rightarrow> ''null'' | Some s \<Rightarrow> s)"

datatype js_error = TypeError | DeveloperError string | RuntimeError string

section \<open>Regular expressions \<open>/name/i\<close>\<close>

text \<open>Only the letters A-Z have another case that a pattern of ASCII letters can
  match.\<close>

definition asciiLower :: "char \<Rightarrow> char" where
  "asciiLower c =
     (case map_of (zip ''ABCDEFGHIJKLMNOPQRSTUVWXYZ'' ''abcdefghijklmnopqrstuvwxyz'') c of
        None \<Rightarrow> c
      | Some l \<Rightarrow> l)"

fun startsWithI :: "string \<Rightarrow> string \<Rightarrow> bool" where
  "startsWithI [] s = True"
| "startsWithI (p # ps) [] = False"
| "startsWithI (p # ps) (c # cs) = (asciiLower p = asciiLower c \<and> startsWithI ps cs)"

text \<open>\<open>regexTestI pat s\<close> is \<open>/pat/i.test(s)\<close> for a pattern of letters: \<open>s\<close> contains
  \<open>pat\<close> somewhere, letter case ignored.\<close>

fun regexTestI :: "string \<Rightarrow> string \<Rightarrow> bool" where
  "regexTestI pat [] = startsWithI pat []"
| "regexTestI pat (c # cs) = (startsWithI pat (c # cs) \<or> regexTestI pat cs)"

section \<open>The capabilities document\<close>

datatype xml_node =
  Node (nodeName: string) (attributes: "(string \<times> string) list")
       (childNodes: "xml_node list") (textContent: string)

definition getAttribute :: "xml_node \<Rightarrow> string \<Rightarrow> string option" where
  "getAttribute n k = map_of (attributes n) k"

section \<open>Geometry objects and the object store\<close>

record rectangle =
  west :: jsnum
  south :: jsnum
  east :: jsnum
  north :: jsnum

record cartographic =
  longitude :: jsnum
  latitude :: jsnum

datatype cartesian2 = Cartesian2 jsnum jsnum

datatype tileXY = TileXY (tile_x: int) (tile_y: int)

text \<open>
  Rectangle objects are mutable and shared by reference: the store holds them, a
  reference is an index, \<open>new Rectangle(..)\<close> appends.
\<close>

type_synonym ref = nat
type_synonym store = "rectangle list"

definition newRectangle :: "store \<Rightarrow> rectangle \<Rightarrow> store \<times> ref" where
  "newRectangle h r = (h @ [r], length h)"

text \<open>\<open>Rectangle.clone\<close> (Core/Rectangle, not part of this file): undefined for an
  undefined argument, otherwise a new object with the same four edges.\<close>

definition Rectangle_clone :: "store \<Rightarrow> ref option \<Rightarrow> store \<times> ref option" where
  "Rectangle_clone h p =
     (case p of
        None \<Rightarrow> (h, None)
      | Some q \<Rightarrow> (case newRectangle h (h ! q) of (h', c) \<Rightarrow> (h', Some c)))"

definition Rectangle_southwest :: "rectangle \<Rightarrow> cartographic" where
  "Rectangle_southwest r = \<lparr>longitude = west r, latitude = south r\<rparr>"

definition Rectangle_northeast :: "rectangle \<Rightarrow> cartographic" where
  "Rectangle_northeast r = \<lparr>longitude = east r, latitude = north r\<rparr>"

section \<open>Tiling schemes and the collaborators outside this file\<close>

datatype scheme_class = GeographicTilingScheme | WebMercatorTilingScheme | OtherTilingScheme

record tilingScheme =
  ts_class :: scheme_class
  ts_rectangle :: ref
  ts_ellipsoid :: "string option"

text \<open>
  Everything the function calls but does not define is a parameter: the built-in
  number parsers, \<open>joinUrls\<close>, \<open>Cartographic.fromDegrees\<close>, the proxy's \<open>getURL\<close>,
  the rectangle object each of the two scheme constructors gives its scheme, and the
  schemes' methods, which take the scheme as their first argument.
  \<open>positionToTileXY\<close> may return undefined. Tile indices are integers.
\<close>

record env =
  joinUrls :: "string \<Rightarrow> string \<Rightarrow> string"
  parseInt10 :: "string option \<Rightarrow> jsnum"
  parseFloat :: "string option \<Rightarrow> jsnum"
  fromDegrees :: "jsnum \<Rightarrow> jsnum \<Rightarrow> cartographic"
  geographicRectangle :: "string option \<Rightarrow> ref"
  webMercatorRectangle :: "string option \<Rightarrow> ref"
  unproject :: "tilingScheme \<Rightarrow> cartesian2 \<Rightarrow> cartographic"
  positionToTileXY :: "tilingScheme \<Rightarrow> cartographic \<Rightarrow> jsnum \<Rightarrow> tileXY option"
  proxy_getURL :: "string \<Rightarrow> string \<Rightarrow> string"

text \<open>\<open>new GeographicTilingScheme({ellipsoid : e})\<close> and
  \<open>new WebMercatorTilingScheme({ellipsoid : e})\<close>.\<close>

definition newGeographicTilingScheme :: "env \<Rightarrow> string option \<Rightarrow> tilingScheme" where
  "newGeographicTilingScheme E e =
     \<lparr>ts_class = GeographicTilingScheme, ts_rectangle = geographicRectangle E e,
      ts_ellipsoid = e\<rparr>"

definition newWebMercatorTilingScheme :: "env \<Rightarrow> string option \<Rightarrow> tilingScheme" where
  "newWebMercatorTilingScheme E e =
     \<lparr>ts_class = WebMercatorTilingScheme, ts_rectangle = webMercatorRectangle E e,
      ts_ellipsoid = e\<rparr>"

section \<open>Options and the resolved configuration\<close>

record options =
  opt_url :: "string option"
  opt_fileExtension :: "string option"
  opt_proxy :: "string option"
  opt_credit :: "string option"
  opt_minimumLevel :: "jsnum option"
  opt_maximumLevel :: "jsnum option"
  opt_rectangle :: "ref option"
  opt_tilingScheme :: "tilingScheme option"
  opt_ellipsoid :: "string option"
  opt_tileWidth :: "jsnum option"
  opt_tileHeight :: "jsnum option"
  opt_flipXY :: "bool option"
  opt_tileDiscardPolicy :: "string option"

record config =
  cfg_url :: string
  cfg_tilingScheme :: tilingScheme
  cfg_rectangle :: ref
  cfg_tileWidth :: jsnum
  cfg_tileHeight :: jsnum
  cfg_minimumLevel :: jsnum
  cfg_maximumLevel :: "jsnum option"
  cfg_proxy :: "string option"
  cfg_tileDiscardPolicy :: "string option"
  cfg_credit :: "string option"

section \<open>metadataSuccess\<close>

subsection \<open>Scanning the document (lines 123-142)\<close>

record scan =
  sc_format :: "xml_node option"
  sc_bbox :: "xml_node option"
  sc_tilesets :: "xml_node option"
  sc_srs :: "string option"
  sc_tilesetsList :: "xml_node list"

definition emptyScan :: scan where
  "emptyScan = \<lparr>sc_format = None, sc_bbox = None, sc_tilesets = None, sc_srs = None,
     sc_tilesetsList = []\<rparr>"

fun collectTileSets :: "xml_node list \<Rightarrow> xml_node list \<Rightarrow> xml_node list" where
  "collectTileSets [] acc = acc"
| "collectTileSets (n # ns) acc =
     collectTileSets ns (if regexTestI ''tileset'' (nodeName n) then acc @ [n] else acc)"

fun scanNodes :: "xml_node list \<Rightarrow> scan \<Rightarrow> scan" where
  "scanNodes [] sc = sc"
| "scanNodes (n # ns) sc =
     scanNodes ns
       (if regexTestI ''tileformat'' (nodeName n) then sc\<lparr>sc_format := Some n\<rparr>
        else if regexTestI ''tilesets'' (nodeName n) then
          sc\<lparr>sc_tilesets := Some n,
             sc_tilesetsList := collectTileSets (childNodes n) (sc_tilesetsList sc)\<rparr>
        else if regexTestI ''boundingbox'' (nodeName n) then sc\<lparr>sc_bbox := Some n\<rparr>
        else if regexTestI ''srs'' (nodeName n) then sc\<lparr>sc_srs := Some (textContent n)\<rparr>
        else sc)"

text \<open>\<open>xml.childNodes[0].childNodes\<close>: reading \<open>childNodes\<close> of undefined throws.\<close>

definition rootChildNodes :: "xml_node \<Rightarrow> js_error + xml_node list" where
  "rootChildNodes xml =
     (case childNodes xml of [] \<Rightarrow> Inl TypeError | rootNode # rest \<Rightarrow> Inr (childNodes rootNode))"

subsection \<open>Format, levels and profile name (lines 144-149)\<close>

record basics =
  b_fileExtension :: "string option"
  b_tileWidth :: jsnum
  b_tileHeight :: jsnum
  b_minimumLevel :: jsnum
  b_maximumLevel :: jsnum
  b_tilingSchemeName :: "string option"

text \<open>Each line calls \<open>getAttribute\<close> on its node before \<open>defaultValue\<close> runs, so an
  undefined node throws whether or not the option is given.\<close>

definition readBasics :: "env \<Rightarrow> options \<Rightarrow> scan \<Rightarrow> js_error + basics" where
  "readBasics E opts sc =
     (case sc_format sc of
        None \<Rightarrow> Inl TypeError
      | Some fmt \<Rightarrow>
          (case sc_tilesetsList sc of
             [] \<Rightarrow> Inl TypeError
           | t0 # ts \<Rightarrow>
               (case sc_tilesets sc of
                  None \<Rightarrow> Inl TypeError
                | Some tsets \<Rightarrow>
                    Inr \<lparr>b_fileExtension =
                           defaultValue (map_option Some (opt_fileExtension opts))
                             (getAttribute fmt ''extension''),
                         b_tileWidth =
                           defaultValue (opt_tileWidth opts)
                             (parseInt10 E (getAttribute fmt ''width'')),
                         b_tileHeight =
                           defaultValue (opt_tileHeight opts)
                             (parseInt10 E (getAttribute fmt ''height'')),
                         b_minimumLevel =
                           defaultValue (opt_minimumLevel opts)
                             (parseInt10 E (getAttribute t0 ''order'')),
                         b_maximumLevel =
                           defaultValue (opt_maximumLevel opts)
                             (parseInt10 E (getAttribute (last (t0 # ts)) ''order'')),
                         b_tilingSchemeName = getAttribute tsets ''profile''\<rparr>)))"

subsection \<open>Profile to tiling scheme (lines 150-165)\<close>

definition unsupportedMessage :: "env \<Rightarrow> string \<Rightarrow> string option \<Rightarrow> string" where
  "unsupportedMessage E u name =
     joinUrls E u ''tilemapresource.xml'' @ ''specifies an unsupported profile attribute, ''
       @ toStringJS name @ ''.''"

text \<open>\<open>Inl message\<close> is the branch that reports the unsupported profile and returns.\<close>

definition chooseTilingScheme ::
  "env \<Rightarrow> options \<Rightarrow> string \<Rightarrow> string option \<Rightarrow> string + tilingScheme" where
  "chooseTilingScheme E opts u name =
     (case opt_tilingScheme opts of
        Some t \<Rightarrow> Inr t
      | None \<Rightarrow>
          if name = Some ''geodetic'' \<or> name = Some ''global-geodetic''
          then Inr (newGeographicTilingScheme E (opt_ellipsoid opts))
          else if name = Some ''mercator'' \<or> name = Some ''global-mercator''
          then Inr (newWebMercatorTilingScheme E (opt_ellipsoid opts))
          else Inl (unsupportedMessage E u name))"

subsection \<open>Rectangle handling (lines 167-202)\<close>

definition bboxCorners :: "env \<Rightarrow> options \<Rightarrow> xml_node \<Rightarrow> cartesian2 \<times> cartesian2" where
  "bboxCorners E opts b =
     (if defaultValue (opt_flipXY opts) False
      then (Cartesian2 (parseFloat E (getAttribute b ''miny''))
                       (parseFloat E (getAttribute b ''minx'')),
            Cartesian2 (parseFloat E (getAttribute b ''maxy''))
                       (parseFloat E (getAttribute b ''maxx'')))
      else (Cartesian2 (parseFloat E (getAttribute b ''minx''))
                       (parseFloat E (getAttribute b ''miny'')),
            Cartesian2 (parseFloat E (getAttribute b ''maxx''))
                       (parseFloat E (getAttribute b ''maxy''))))"

definition toCartographic ::
  "env \<Rightarrow> tilingScheme \<Rightarrow> string option \<Rightarrow> cartesian2 \<Rightarrow> cartographic" where
  "toCartographic E t name p =
     (let isGdal2tiles = (name = Some ''geodetic'' \<or> name = Some ''mercator'')
      in if ts_class t = GeographicTilingScheme \<or> isGdal2tiles
         then (case p of Cartesian2 px py \<Rightarrow> fromDegrees E px py)
         else unproject E t p)"

definition derivedRectangle ::
  "env \<Rightarrow> options \<Rightarrow> tilingScheme \<Rightarrow> string option \<Rightarrow> xml_node \<Rightarrow> rectangle" where
  "derivedRectangle E opts t name b =
     (case bboxCorners E opts b of
        (swXY, neXY) \<Rightarrow>
          (let sw = toCartographic E t name swXY;
               ne = toCartographic E t name neXY
           in \<lparr>west = longitude sw, south = latitude sw,
               east = longitude ne, north = latitude ne\<rparr>))"

text \<open>With no override the first \<open>bbox.getAttribute\<close> throws when no bounding-box
  node was found.\<close>

definition rectangleHandling ::
  "env \<Rightarrow> options \<Rightarrow> tilingScheme \<Rightarrow> string option \<Rightarrow> scan \<Rightarrow> store
     \<Rightarrow> (js_error + ref) \<times> store" where
  "rectangleHandling E opts t name sc h =
     (case Rectangle_clone h (opt_rectangle opts) of
        (h1, Some r) \<Rightarrow> (Inr r, h1)
      | (h1, None) \<Rightarrow>
          (case sc_bbox sc of
             None \<Rightarrow> (Inl TypeError, h1)
           | Some b \<Rightarrow>
               (case newRectangle h1 (derivedRectangle E opts t name b) of
                  (h2, r) \<Rightarrow> (Inr r, h2))))"

subsection \<open>Clamping to the scheme's rectangle (lines 204-216)\<close>

text \<open>The four conditional assignments, in the source's order; \<open>b\<close> is
  \<open>tilingScheme.rectangle\<close>.\<close>

definition clampToScheme :: "rectangle \<Rightarrow> rectangle \<Rightarrow> rectangle" where
  "clampToScheme b r =
     (let r1 = (if js_lt (west r) (west b) then r\<lparr>west := west b\<rparr> else r);
          r2 = (if js_gt (east r1) (east b) then r1\<lparr>east := east b\<rparr> else r1);
          r3 = (if js_lt (south r2) (south b) then r2\<lparr>south := south b\<rparr> else r2);
          r4 = (if js_gt (north r3) (north b) then r3\<lparr>north := north b\<rparr> else r3)
      in r4)"

definition clampInStore :: "store \<Rightarrow> tilingScheme \<Rightarrow> ref \<Rightarrow> store" where
  "clampInStore h t r = h[r := clampToScheme (h ! ts_rectangle t) (h ! r)]"

subsection \<open>Tile count at the minimum level (lines 218-226)\<close>

definition tileCount :: "tileXY \<Rightarrow> tileXY \<Rightarrow> int" where
  "tileCount swTile neTile =
     (\<bar>tile_x neTile - tile_x swTile\<bar> + 1) * (\<bar>tile_y neTile - tile_y swTile\<bar> + 1)"

text \<open>Both calls are made first; reading \<open>.x\<close> of an undefined result throws.\<close>

definition checkMinimumLevel ::
  "env \<Rightarrow> tilingScheme \<Rightarrow> rectangle \<Rightarrow> jsnum \<Rightarrow> js_error + jsnum" where
  "checkMinimumLevel E t r minimumLevel =
     (case positionToTileXY E t (Rectangle_southwest r) minimumLevel of
        None \<Rightarrow> Inl TypeError
      | Some swTile \<Rightarrow>
          (case positionToTileXY E t (Rectangle_northeast r) minimumLevel of
             None \<Rightarrow> Inl TypeError
           | Some neTile \<Rightarrow>
               Inr (if tileCount swTile neTile > 4 then Fin 0 else minimumLevel)))"

subsection \<open>The whole function\<close>

definition templateUrl :: "env \<Rightarrow> string \<Rightarrow> string option \<Rightarrow> string" where
  "templateUrl E u fileExtension =
     joinUrls E u (''{z}/{x}/{reverseY}.'' @ toStringJS fileExtension)"

text \<open>How a call of \<open>metadataSuccess\<close> ends: with an exception, in the
  unsupported-profile branch (before its \<open>return\<close>), or at \<open>deferred.resolve\<close>.\<close>

datatype outcome = Threw js_error | Unsupported string | Resolve config

definition metadataSuccess ::
  "env \<Rightarrow> options \<Rightarrow> string \<Rightarrow> store \<Rightarrow> xml_node \<Rightarrow> outcome \<times> store" where
  "metadataSuccess E opts u h xml =
     (case rootChildNodes xml of
        Inl e \<Rightarrow> (Threw e, h)
      | Inr nodeList \<Rightarrow>
          (let sc = scanNodes nodeList emptyScan in
           case readBasics E opts sc of
             Inl e \<Rightarrow> (Threw e, h)
           | Inr b \<Rightarrow>
               (case chooseTilingScheme E opts u (b_tilingSchemeName b) of
                  Inl message \<Rightarrow> (Unsupported message, h)
                | Inr t \<Rightarrow>
                    (case rectangleHandling E opts t (b_tilingSchemeName b) sc h of
                       (Inl e, h1) \<Rightarrow> (Threw e, h1)
                     | (Inr r, h1) \<Rightarrow>
                         (let h2 = clampInStore h1 t r in
                          case checkMinimumLevel E t (h2 ! r) (b_minimumLevel b) of
                            Inl e \<Rightarrow> (Threw e, h2)
                          | Inr minimumLevel \<Rightarrow>
                              (Resolve
                                 \<lparr>cfg_url = templateUrl E u (b_fileExtension b),
                                  cfg_tilingScheme = t,
                                  cfg_rectangle = r,
                                  cfg_tileWidth = b_tileWidth b,
                                  cfg_tileHeight = b_tileHeight b,
                                  cfg_minimumLevel = minimumLevel,
                                  cfg_maximumLevel = Some (b_maximumLevel b),
                                  cfg_proxy = opt_proxy opts,
                                  cfg_tileDiscardPolicy = opt_tileDiscardPolicy opts,
                                  cfg_credit = opt_credit opts\<rparr>, h2))))))"

section \<open>metadataFailure (lines 244-268)\<close>

definition metadataFailure :: "env \<Rightarrow> options \<Rightarrow> string \<Rightarrow> config" where
  "metadataFailure E opts u =
     (let fileExtension = defaultValue (opt_fileExtension opts) ''png'';
          tileWidth = defaultValue (opt_tileWidth opts) (Fin 256);
          tileHeight = defaultValue (opt_tileHeight opts) (Fin 256);
          minimumLevel = defaultValue (opt_minimumLevel opts) (Fin 0);
          maximumLevel = opt_maximumLevel opts;
          t = (case opt_tilingScheme opts of
                 Some ts \<Rightarrow> ts
               | None \<Rightarrow> newWebMercatorTilingScheme E (opt_ellipsoid opts));
          rect = defaultValue (opt_rectangle opts) (ts_rectangle t)
      in \<lparr>cfg_url = joinUrls E u (''{z}/{x}/{reverseY}.'' @ fileExtension),
          cfg_tilingScheme = t,
          cfg_rectangle = rect,
          cfg_tileWidth = tileWidth,
          cfg_tileHeight = tileHeight,
          cfg_minimumLevel = minimumLevel,
          cfg_maximumLevel = maximumLevel,
          cfg_proxy = opt_proxy opts,
          cfg_tileDiscardPolicy = opt_tileDiscardPolicy opts,
          cfg_credit = opt_credit opts\<rparr>)"

section \<open>The deferred, the requests and the whole call\<close>

datatype deferred_state = Pending | Fulfilled config | Rejected js_error

record tileProviderError =
  tpe_message :: string
  tpe_retry :: bool

text \<open>
  The state a call works on: the object store, the deferred with the number of
  \<open>resolve\<close>/\<open>reject\<close> calls made on it, the variable \<open>metadataError\<close>, the messages
  raised on the provider's error event and the URLs requested.
\<close>

record state =
  st_store :: store
  st_deferred :: deferred_state
  st_completions :: nat
  st_metadataError :: "tileProviderError option"
  st_reported :: "string list"
  st_requests :: "string list"

definition initialState :: "store \<Rightarrow> state" where
  "initialState h = \<lparr>st_store = h, st_deferred = Pending, st_completions = 0,
     st_metadataError = None, st_reported = [], st_requests = []\<rparr>"

text \<open>A deferred keeps its first completion; a later call changes nothing but is
  counted.\<close>

definition complete :: "deferred_state \<Rightarrow> state \<Rightarrow> state" where
  "complete d st =
     st\<lparr>st_deferred := (case st_deferred st of Pending \<Rightarrow> d | Fulfilled c \<Rightarrow> Fulfilled c
                           | Rejected e \<Rightarrow> Rejected e),
        st_completions := Suc (st_completions st)\<rparr>"

definition deferred_resolve :: "config \<Rightarrow> state \<Rightarrow> state" where
  "deferred_resolve c st = complete (Fulfilled c) st"

definition deferred_reject :: "js_error \<Rightarrow> state \<Rightarrow> state" where
  "deferred_reject e st = complete (Rejected e) st"

definition resourceUrl :: "env \<Rightarrow> options \<Rightarrow> string \<Rightarrow> string" where
  "resourceUrl E opts u =
     (let r = joinUrls E u ''tilemapresource.xml''
      in case opt_proxy opts of None \<Rightarrow> r | Some p \<Rightarrow> proxy_getURL E p r)"

text \<open>
  What the world answers to one request: the parsed document, or \<open>None\<close> when the
  fetch or the parse fails; and whether a listener of the error event asks for a retry,
  should \<open>TileProviderError.handleError\<close> be called. A call is run against the list
  of answers to its successive requests; a request beyond the list is never answered.
\<close>

record attempt =
  response :: "xml_node option"
  retryGranted :: bool

text \<open>
  \<open>requestMetadata\<close> with the two handlers of \<open>when(.., metadataSuccess,
  metadataFailure)\<close>: an exception thrown by \<open>metadataSuccess\<close> rejects the promise
  \<open>when\<close> returns, which nobody reads; \<open>metadataFailure\<close> handles the request's failure
  only. \<open>handleError\<close> raises the event, calls the retry function when a retry is
  asked for and returns the error object.
\<close>

fun requestMetadata :: "env \<Rightarrow> options \<Rightarrow> string \<Rightarrow> attempt list \<Rightarrow> state \<Rightarrow> state" where
  "requestMetadata E opts u [] st =
     st\<lparr>st_requests := st_requests st @ [resourceUrl E opts u]\<rparr>"
| "requestMetadata E opts u (a # rest) st =
     (let st1 = st\<lparr>st_requests := st_requests st @ [resourceUrl E opts u]\<rparr>
      in case response a of
           None \<Rightarrow> deferred_resolve (metadataFailure E opts u) st1
         | Some xml \<Rightarrow>
             (case metadataSuccess E opts u (st_store st1) xml of
                (Threw e, h) \<Rightarrow> st1\<lparr>st_store := h\<rparr>
              | (Resolve c, h) \<Rightarrow> deferred_resolve c (st1\<lparr>st_store := h\<rparr>)
              | (Unsupported message, h) \<Rightarrow>
                  (let st2 = st1\<lparr>st_store := h,
                               st_metadataError :=
                                 Some \<lparr>tpe_message = message, tpe_retry = retryGranted a\<rparr>,
                               st_reported := st_reported st1 @ [message]\<rparr>
                   in if retryGranted a then requestMetadata E opts u rest st2
                      else deferred_reject (RuntimeError message) st2)))"

text \<open>The debug build's check of \<open>options.url\<close>, then the first request. The state
  returned is what the provider built on \<open>deferred.promise\<close> gets to see.\<close>

definition createTileMapServiceImageryProvider ::
  "env \<Rightarrow> options \<Rightarrow> attempt list \<Rightarrow> store \<Rightarrow> js_error + state" where
  "createTileMapServiceImageryProvider E opts script h =
     (case opt_url opts of
        None \<Rightarrow> Inl (DeveloperError ''options.url is required.'')
      | Some u \<Rightarrow> Inr (requestMetadata E opts u script (initialState h)))"

text \<open>An attempt that ends in the unsupported-profile branch with a retry asked for:
  the only way a call comes to a further request.\<close>

definition retried :: "env \<Rightarrow> options \<Rightarrow> string \<Rightarrow> store \<Rightarrow> attempt \<Rightarrow> bool" where
  "retried E opts u h a =
     (case response a of
        None \<Rightarrow> False
      | Some xml \<Rightarrow>
          (case fst (metadataSuccess E opts u h xml) of
             Unsupported m \<Rightarrow> retryGranted a
           | Threw e \<Rightarrow> False
           | Resolve c \<Rightarrow> False))"

section \<open>A small world to run the functions in\<close>

text \<open>
  Stand-ins for the collaborators: parsers that know a few numerals, degrees kept as
  they are, an inverse projection that exchanges the two coordinates, and a tile index
  with one tile at level 0 and a grid of four by two tiles at every other level.
  Object 0 is the rectangle of the geographic scheme, object 1 that of the web-mercator
  scheme, object 2 a rectangle of the caller's, wider than both.
\<close>

definition exampleEnv :: env where
  "exampleEnv =
     \<lparr>joinUrls = (\<lambda>a b. a @ ''/'' @ b),
      parseInt10 =
        (\<lambda>s. case s of
               None \<Rightarrow> NaN
             | Some v \<Rightarrow>
                 (case map_of [(''0'', Fin 0), (''2'', Fin 2), (''9'', Fin 9),
                               (''256'', Fin 256)] v of
                    None \<Rightarrow> NaN
                  | Some n \<Rightarrow> n)),
      parseFloat =
        (\<lambda>s. case s of
               None \<Rightarrow> NaN
             | Some v \<Rightarrow>
                 (case map_of [(''-120'', Fin (- 120)), (''20'', Fin 20),
                               (''-60'', Fin (- 60)), (''40'', Fin 40)] v of
                    None \<Rightarrow> NaN
                  | Some n \<Rightarrow> n)),
      fromDegrees = (\<lambda>a b. \<lparr>longitude = a, latitude = b\<rparr>),
      geographicRectangle = (\<lambda>e. 0),
      webMercatorRectangle = (\<lambda>e. 1),
      unproject = (\<lambda>t p. case p of Cartesian2 a b \<Rightarrow> \<lparr>longitude = b, latitude = a\<rparr>),
      positionToTileXY =
        (\<lambda>t p l. case (longitude p, latitude p) of
                   (Fin a, Fin b) \<Rightarrow>
                     (if l = Fin 0 then Some (TileXY 0 0)
                      else Some (TileXY (if a < - 90 then 0 else if a < 0 then 1
                                         else if a < 90 then 2 else 3)
                                        (if b < 0 then 0 else 1)))
                 | _ \<Rightarrow> None),
      proxy_getURL = (\<lambda>p r. p @ r)\<rparr>"

definition wideRectangle :: rectangle where
  "wideRectangle = \<lparr>west = Fin (- 200), south = Fin (- 60), east = Fin 200, north = Fin 60\<rparr>"

definition exampleStore :: store where
  "exampleStore =
     [\<lparr>west = Fin (- 180), south = Fin (- 90), east = Fin 180, north = Fin 90\<rparr>,
      \<lparr>west = Fin (- 180), south = Fin (- 85), east = Fin 180, north = Fin 85\<rparr>,
      wideRectangle]"

definition noOptions :: options where
  "noOptions = \<lparr>opt_url = Some ''tiles'', opt_fileExtension = None, opt_proxy = None,
     opt_credit = None, opt_minimumLevel = None, opt_maximumLevel = None,
     opt_rectangle = None, opt_tilingScheme = None, opt_ellipsoid = None,
     opt_tileWidth = None, opt_tileHeight = None, opt_flipXY = None,
     opt_tileDiscardPolicy = None\<rparr>"

definition rectangleOptions :: options where
  "rectangleOptions = noOptions\<lparr>opt_rectangle := Some 2\<rparr>"

definition mercatorScheme :: tilingScheme where
  "mercatorScheme =
     \<lparr>ts_class = WebMercatorTilingScheme, ts_rectangle = 1, ts_ellipsoid = None\<rparr>"

definition tileFormatNode :: xml_node where
  "tileFormatNode =
     Node ''TileFormat'' [(''width'', ''256''), (''height'', ''256''), (''extension'', ''png'')]
       [] []"

definition boundingBoxNode :: xml_node where
  "boundingBoxNode =
     Node ''BoundingBox''
       [(''minx'', ''-120''), (''miny'', ''20''), (''maxx'', ''-60''), (''maxy'', ''40'')] [] []"

definition tileSetNode :: "string \<Rightarrow> xml_node" where
  "tileSetNode order = Node ''TileSet'' [(''order'', order)] [] []"

definition tileSetsNode :: "string \<Rightarrow> xml_node" where
  "tileSetsNode profile =
     Node ''TileSets'' [(''profile'', profile)] [tileSetNode ''2'', tileSetNode ''9''] []"

definition emptyTileSetsNode :: "string \<Rightarrow> xml_node" where
  "emptyTileSetsNode profile = Node ''TileSets'' [(''profile'', profile)] [] []"

definition document :: "xml_node list \<Rightarrow> xml_node" where
  "document sections = Node ''#document'' [] [Node ''TileMap'' [] sections []] []"

text \<open>The sections of a complete document, and of three documents that lack one
  section each.\<close>

definition fullSections :: "string \<Rightarrow> xml_node list" where
  "fullSections profile = [tileFormatNode, boundingBoxNode, tileSetsNode profile]"

definition noFormatSections :: "string \<Rightarrow> xml_node list" where
  "noFormatSections profile = [boundingBoxNode, tileSetsNode profile]"

definition noTileSetSections :: "string \<Rightarrow> xml_node list" where
  "noTileSetSections profile = [tileFormatNode, boundingBoxNode, emptyTileSetsNode profile]"

definition noBoundingBoxSections :: "string \<Rightarrow> xml_node list" where
  "noBoundingBoxSections profile = [tileFormatNode, tileSetsNode profile]"

definition bboxRectangle :: rectangle where
  "bboxRectangle = \<lparr>west = Fin (- 120), south = Fin 20, east = Fin (- 60), north = Fin 40\<rparr>"

definition clampedWideRectangle :: rectangle where
  "clampedWideRectangle =
     \<lparr>west = Fin (- 180), south = Fin (- 60), east = Fin 180, north = Fin 60\<rparr>"

definition derivedConfig :: config where
  "derivedConfig =
     \<lparr>cfg_url = ''tiles/{z}/{x}/{reverseY}.png'', cfg_tilingScheme = mercatorScheme,
      cfg_rectangle = 3, cfg_tileWidth = Fin 256, cfg_tileHeight = Fin 256,
      cfg_minimumLevel = Fin 2, cfg_maximumLevel = Some (Fin 9),
      cfg_proxy = None, cfg_tileDiscardPolicy = None, cfg_credit = None\<rparr>"

definition overrideConfig :: config where
  "overrideConfig = derivedConfig\<lparr>cfg_minimumLevel := Fin 0\<rparr>"

definition overrideOptions :: options where
  "overrideOptions = noOptions\<lparr>opt_rectangle := Some 2, opt_minimumLevel := Some (Fin 9)\<rparr>"






definition overrideRun :: state where
  "overrideRun =
     \<lparr>st_store = exampleStore @ [clampedWideRectangle], st_deferred = Fulfilled overrideConfig,
      st_completions = 1, st_metadataError = None, st_reported = [],
      st_requests = [''tiles/tilemapresource.xml'']\<rparr>"

definition answer :: "xml_node \<Rightarrow> attempt" where
  "answer xml = \<lparr>response = Some xml, retryGranted = False\<rparr>"

definition answerWithRetry :: "xml_node \<Rightarrow> attempt" where
  "answerWithRetry xml = \<lparr>response = Some xml, retryGranted = True\<rparr>"

definition noAnswer :: attempt where
  "noAnswer = \<lparr>response = None, retryGranted = False\<rparr>"

section \<open>Facts about the steps\<close>

lemma js_lt_irrefl [simp]: "\<not> js_lt a a"
  by (cases a) simp_all

lemma clampToScheme_edges:
  "west (clampToScheme b r) = (if js_lt (west r) (west b) then west b else west r)"
  "east (clampToScheme b r) = (if js_gt (east r) (east b) then east b else east r)"
  "south (clampToScheme b r) = (if js_lt (south r) (south b) then south b else south r)"
  "north (clampToScheme b r) = (if js_gt (north r) (north b) then north b else north r)"
  by (simp_all add: clampToScheme_def Let_def)

lemma clampToScheme_more: "rectangle.more (clampToScheme b r) = rectangle.more r"
  by (simp add: clampToScheme_def Let_def)

lemma clampToScheme_self: "clampToScheme r r = r"
  by (simp add: clampToScheme_def Let_def js_gt_def)

lemma rectangleHandling_cases:
  assumes "rectangleHandling E opts t name sc h = (res, h1)"
  shows "(\<exists>e. res = Inl e \<and> h1 = h) \<or> (\<exists>x. res = Inr (length h) \<and> h1 = h @ [x])"
  using assms
  by (auto simp: rectangleHandling_def Rectangle_clone_def newRectangle_def
      split: option.splits)

lemma rectangleHandling_Inr:
  assumes "rectangleHandling E opts t name sc h = (Inr r, h1)"
  shows "r = length h \<and>
         (case opt_rectangle opts of
            Some p \<Rightarrow> h1 = h @ [h ! p]
          | None \<Rightarrow> (case sc_bbox sc of None \<Rightarrow> False
                     | Some b \<Rightarrow> h1 = h @ [derivedRectangle E opts t name b]))"
  using assms
  by (auto simp: rectangleHandling_def Rectangle_clone_def newRectangle_def
      split: option.splits)

text \<open>The clamped rectangle is the new object; what the scheme's own rectangle holds is
  the same before and after.\<close>

lemma clampInStore_new:
  "clampInStore (h @ [x]) t (length h) ! length h
     = clampToScheme ((h @ [x]) ! ts_rectangle t) x"
  by (simp add: clampInStore_def)

lemma clampInStore_scheme:
  "clampInStore (h @ [x]) t (length h) ! ts_rectangle t = (h @ [x]) ! ts_rectangle t"
proof (cases "ts_rectangle t = length h")
  case True
  then show ?thesis by (simp add: clampInStore_def clampToScheme_self)
next
  case False
  then have "length h \<noteq> ts_rectangle t" by simp
  then show ?thesis unfolding clampInStore_def by (rule nth_list_update_neq)
qed

lemma clampInStore_old:
  "q < length h \<Longrightarrow> clampInStore (h @ [x]) t (length h) ! q = h ! q"
  by (simp add: clampInStore_def nth_append)

text \<open>What a call that reaches \<open>deferred.resolve\<close> went through.\<close>

lemma metadataSuccess_Resolve:
  assumes "metadataSuccess E opts u h xml = (Resolve cfg, h')"
  obtains nodeList b t r h1 lvl where
    "rootChildNodes xml = Inr nodeList"
    "readBasics E opts (scanNodes nodeList emptyScan) = Inr b"
    "chooseTilingScheme E opts u (b_tilingSchemeName b) = Inr t"
    "rectangleHandling E opts t (b_tilingSchemeName b) (scanNodes nodeList emptyScan) h
       = (Inr r, h1)"
    "h' = clampInStore h1 t r"
    "checkMinimumLevel E t (h' ! r) (b_minimumLevel b) = Inr lvl"
    "cfg = \<lparr>cfg_url = templateUrl E u (b_fileExtension b), cfg_tilingScheme = t,
            cfg_rectangle = r, cfg_tileWidth = b_tileWidth b, cfg_tileHeight = b_tileHeight b,
            cfg_minimumLevel = lvl, cfg_maximumLevel = Some (b_maximumLevel b),
            cfg_proxy = opt_proxy opts, cfg_tileDiscardPolicy = opt_tileDiscardPolicy opts,
            cfg_credit = opt_credit opts\<rparr>"
  using assms unfolding metadataSuccess_def
  by (auto simp: Let_def split: sum.splits prod.splits)

lemma metadataSuccess_Unsupported:
  assumes "metadataSuccess E opts u h xml = (Unsupported m, h')"
  shows "h' = h"
  using assms unfolding metadataSuccess_def
  by (auto simp: Let_def split: sum.splits prod.splits)

text \<open>No call of \<open>metadataSuccess\<close> writes to an object that existed before it.\<close>

lemma metadataSuccess_store:
  assumes "metadataSuccess E opts u h xml = (out, h')" and "q < length h"
  shows "h' ! q = h ! q"
proof (cases "rootChildNodes xml")
  case (Inl e)
  with assms show ?thesis by (simp add: metadataSuccess_def)
next
  case nl: (Inr nodeList)
  show ?thesis
  proof (cases "readBasics E opts (scanNodes nodeList emptyScan)")
    case (Inl e)
    with assms nl show ?thesis by (simp add: metadataSuccess_def)
  next
    case b: (Inr b)
    show ?thesis
    proof (cases "chooseTilingScheme E opts u (b_tilingSchemeName b)")
      case (Inl m)
      with assms nl b show ?thesis by (simp add: metadataSuccess_def)
    next
      case t: (Inr t)
      obtain res h1 where rh:
        "rectangleHandling E opts t (b_tilingSchemeName b) (scanNodes nodeList emptyScan) h
           = (res, h1)"
        by (cases "rectangleHandling E opts t (b_tilingSchemeName b)
                     (scanNodes nodeList emptyScan) h") blast
      from rectangleHandling_cases [OF rh] show ?thesis
      proof
        assume "\<exists>e. res = Inl e \<and> h1 = h"
        with assms nl b t rh show ?thesis by (auto simp: metadataSuccess_def)
      next
        assume "\<exists>x. res = Inr (length h) \<and> h1 = h @ [x]"
        then obtain x where x: "res = Inr (length h)" "h1 = h @ [x]" by blast
        from assms(1) nl b t rh x
        have "h' = clampInStore (h @ [x]) t (length h)"
          by (auto simp: metadataSuccess_def Let_def split: sum.splits)
        with assms(2) show ?thesis by (simp add: clampInStore_old)
      qed
    qed
  qed
qed

lemma readBasics_Inr:
  assumes "readBasics E opts sc = Inr b"
  obtains fmt t0 ts tsets where
    "sc_format sc = Some fmt" "sc_tilesetsList sc = t0 # ts" "sc_tilesets sc = Some tsets"
    "b_minimumLevel b = (case opt_minimumLevel opts of
                           Some v \<Rightarrow> v | None \<Rightarrow> parseInt10 E (getAttribute t0 ''order''))"
    "b_tilingSchemeName b = getAttribute tsets ''profile''"
  using assms
  by (auto simp: readBasics_def defaultValue_def split: option.splits list.splits)

lemma checkMinimumLevel_Inr:
  assumes "checkMinimumLevel E t r m = Inr lvl"
  obtains swTile neTile where
    "positionToTileXY E t \<lparr>longitude = west r, latitude = south r\<rparr> m = Some swTile"
    "positionToTileXY E t \<lparr>longitude = east r, latitude = north r\<rparr> m = Some neTile"
    "lvl = (if (\<bar>tile_x neTile - tile_x swTile\<bar> + 1) * (\<bar>tile_y neTile - tile_y swTile\<bar> + 1) > 4
            then Fin 0 else m)"
  using assms
  by (auto simp: checkMinimumLevel_def Rectangle_southwest_def Rectangle_northeast_def
      tileCount_def split: option.splits)

text \<open>The rectangle before clamping and the clamped one, for a call that resolves.\<close>

lemma metadataSuccess_rectangle:
  assumes "metadataSuccess E opts u h xml = (Resolve cfg, h')"
  obtains nodeList tsets r0 where
    "rootChildNodes xml = Inr nodeList"
    "sc_tilesets (scanNodes nodeList emptyScan) = Some tsets"
    "case opt_rectangle opts of
       Some p \<Rightarrow> r0 = h ! p
     | None \<Rightarrow>
         (case sc_bbox (scanNodes nodeList emptyScan) of
            None \<Rightarrow> False
          | Some bb \<Rightarrow>
              r0 = derivedRectangle E opts (cfg_tilingScheme cfg)
                     (getAttribute tsets ''profile'') bb)"
    "cfg_rectangle cfg = length h"
    "h' ! cfg_rectangle cfg = clampToScheme (h' ! ts_rectangle (cfg_tilingScheme cfg)) r0"
proof -
  from assms obtain nodeList b t r h1 where s:
    "rootChildNodes xml = Inr nodeList"
    "readBasics E opts (scanNodes nodeList emptyScan) = Inr b"
    "rectangleHandling E opts t (b_tilingSchemeName b) (scanNodes nodeList emptyScan) h
       = (Inr r, h1)"
    "h' = clampInStore h1 t r"
    "cfg_tilingScheme cfg = t" "cfg_rectangle cfg = r"
    by (rule metadataSuccess_Resolve) simp
  from s(2) obtain tsets where b:
    "sc_tilesets (scanNodes nodeList emptyScan) = Some tsets"
    "b_tilingSchemeName b = getAttribute tsets ''profile''"
    by (rule readBasics_Inr)
  from rectangleHandling_cases [OF s(3)] obtain x where x: "r = length h" "h1 = h @ [x]"
    by auto
  from rectangleHandling_Inr [OF s(3)] x s(5) b(2) have r0:
    "case opt_rectangle opts of
       Some p \<Rightarrow> x = h ! p
     | None \<Rightarrow>
         (case sc_bbox (scanNodes nodeList emptyScan) of
            None \<Rightarrow> False
          | Some bb \<Rightarrow>
              x = derivedRectangle E opts (cfg_tilingScheme cfg)
                    (getAttribute tsets ''profile'') bb)"
    by (auto split: option.splits)
  have len: "cfg_rectangle cfg = length h" using s(6) x(1) by simp
  have "h' ! r = clampToScheme (h' ! ts_rectangle t) x"
    using s(4) x by (simp add: clampInStore_new clampInStore_scheme)
  then have cl: "h' ! cfg_rectangle cfg
      = clampToScheme (h' ! ts_rectangle (cfg_tilingScheme cfg)) x"
    using s(5) s(6) by simp
  from s(1) b(1) r0 len cl show ?thesis by (rule that)
qed

section \<open>Facts about the whole call\<close>

lemma retried_Unsupported:
  assumes "retried E opts u h a"
  obtains xml m where "response a = Some xml" "metadataSuccess E opts u h xml = (Unsupported m, h)"
    "retryGranted a"
proof -
  from assms obtain xml where x: "response a = Some xml"
    by (auto simp: retried_def split: option.splits)
  obtain out h' where r: "metadataSuccess E opts u h xml = (out, h')"
    by (cases "metadataSuccess E opts u h xml") blast
  from assms x r obtain m where m: "out = Unsupported m" "retryGranted a"
    by (auto simp: retried_def split: outcome.splits)
  with r have "h' = h" by (simp add: metadataSuccess_Unsupported)
  with x r m that show ?thesis by blast
qed

lemma requestMetadata_retried:
  assumes "list_all (retried E opts u (st_store st)) pre"
  shows "\<exists>st'. requestMetadata E opts u (pre @ rest) st = requestMetadata E opts u rest st'
          \<and> st_store st' = st_store st \<and> st_deferred st' = st_deferred st
          \<and> st_completions st' = st_completions st
          \<and> length (st_reported st') = length (st_reported st) + length pre"
  using assms
proof (induction pre arbitrary: st)
  case Nil
  then show ?case by auto
next
  case (Cons a pre)
  from Cons.prems have a: "retried E opts u (st_store st) a"
    and pre: "list_all (retried E opts u (st_store st)) pre" by simp_all
  from a obtain xml m where x: "response a = Some xml"
    "metadataSuccess E opts u (st_store st) xml = (Unsupported m, st_store st)" "retryGranted a"
    by (rule retried_Unsupported)
  define st2 where "st2 = st\<lparr>st_requests := st_requests st @ [resourceUrl E opts u],
      st_store := st_store st,
      st_metadataError := Some \<lparr>tpe_message = m, tpe_retry = retryGranted a\<rparr>,
      st_reported := st_reported st @ [m]\<rparr>"
  have step: "requestMetadata E opts u ((a # pre) @ rest) st
      = requestMetadata E opts u (pre @ rest) st2"
    using x by (simp add: st2_def Let_def)
  have "list_all (retried E opts u (st_store st2)) pre" using pre by (simp add: st2_def)
  from Cons.IH [OF this] obtain st' where
    "requestMetadata E opts u (pre @ rest) st2 = requestMetadata E opts u rest st'"
    "st_store st' = st_store st2" "st_deferred st' = st_deferred st2"
    "st_completions st' = st_completions st2"
    "length (st_reported st') = length (st_reported st2) + length pre" by blast
  with step show ?case by (auto simp: st2_def)
qed

lemma requestMetadata_failure:
  assumes "response a = None"
  shows "requestMetadata E opts u (a # rest) st
     = deferred_resolve (metadataFailure E opts u)
         (st\<lparr>st_requests := st_requests st @ [resourceUrl E opts u]\<rparr>)"
  using assms by (simp add: Let_def)

lemma fallback_run:
  assumes "opt_url opts = Some u" and "list_all (retried E opts u h) pre"
    and "response a = None"
  shows "\<exists>st. createTileMapServiceImageryProvider E opts (pre @ a # rest) h = Inr st
      \<and> st_deferred st = Fulfilled (metadataFailure E opts u)
      \<and> st_completions st = 1 \<and> st_store st = h
      \<and> length (st_reported st) = length pre"
proof -
  have "list_all (retried E opts u (st_store (initialState h))) pre"
    using assms(2) by (simp add: initialState_def)
  from requestMetadata_retried [OF this, of "a # rest"] obtain st' where st':
    "requestMetadata E opts u (pre @ a # rest) (initialState h)
       = requestMetadata E opts u (a # rest) st'"
    "st_store st' = st_store (initialState h)" "st_deferred st' = st_deferred (initialState h)"
    "st_completions st' = st_completions (initialState h)"
    "length (st_reported st') = length (st_reported (initialState h)) + length pre" by blast
  show ?thesis
    using assms(1) st' requestMetadata_failure [OF assms(3), of E opts u rest st']
    by (simp add: createTileMapServiceImageryProvider_def deferred_resolve_def complete_def
        initialState_def)
qed

lemma requestMetadata_store:
  assumes "q < length (st_store st)"
  shows "st_store (requestMetadata E opts u script st) ! q = st_store st ! q"
  using assms
proof (induction script arbitrary: st)
  case Nil
  then show ?case by simp
next
  case (Cons a script)
  let ?st1 = "st\<lparr>st_requests := st_requests st @ [resourceUrl E opts u]\<rparr>"
  show ?case
  proof (cases "response a")
    case None
    then show ?thesis by (simp add: Let_def deferred_resolve_def complete_def)
  next
    case (Some xml)
    obtain out h' where r: "metadataSuccess E opts u (st_store st) xml = (out, h')"
      by (cases "metadataSuccess E opts u (st_store st) xml") blast
    have old: "h' ! q = st_store st ! q"
      using r Cons.prems by (rule metadataSuccess_store)
    show ?thesis
    proof (cases out)
      case (Threw e)
      with Some r old show ?thesis by (simp add: Let_def)
    next
      case (Resolve c)
      with Some r old show ?thesis by (simp add: Let_def deferred_resolve_def complete_def)
    next
      case (Unsupported m)
      with r have h': "h' = st_store st" by (simp add: metadataSuccess_Unsupported)
      show ?thesis
      proof (cases "retryGranted a")
        case True
        with Some r Unsupported h' Cons.IH [of "st\<lparr>st_requests := st_requests st @ [resourceUrl E opts u],
            st_store := st_store st,
            st_metadataError := Some \<lparr>tpe_message = m, tpe_retry = True\<rparr>,
            st_reported := st_reported st @ [m]\<rparr>"] Cons.prems
        show ?thesis by (simp add: Let_def)
      next
        case False
        with Some r Unsupported h' show ?thesis
          by (simp add: Let_def deferred_reject_def complete_def)
      qed
    qed
  qed
qed

lemma requestMetadata_at_most_once:
  "st_completions (requestMetadata E opts u script st) \<le> Suc (st_completions st)"
proof (induction script arbitrary: st)
  case Nil
  then show ?case by simp
next
  case (Cons a script)
  show ?case
  proof (cases "response a")
    case None
    then show ?thesis by (simp add: Let_def deferred_resolve_def complete_def)
  next
    case (Some xml)
    obtain out h' where r: "metadataSuccess E opts u (st_store st) xml = (out, h')"
      by (cases "metadataSuccess E opts u (st_store st) xml") blast
    show ?thesis
    proof (cases out)
      case (Threw e)
      with Some r show ?thesis by (simp add: Let_def)
    next
      case (Resolve c)
      with Some r show ?thesis by (simp add: Let_def deferred_resolve_def complete_def)
    next
      case (Unsupported m)
      show ?thesis
      proof (cases "retryGranted a")
        case True
        with Some r Unsupported Cons.IH [of "st\<lparr>st_requests := st_requests st @ [resourceUrl E opts u],
            st_store := h',
            st_metadataError := Some \<lparr>tpe_message = m, tpe_retry = True\<rparr>,
            st_reported := st_reported st @ [m]\<rparr>"]
        show ?thesis by (simp add: Let_def)
      next
        case False
        with Some r Unsupported show ?thesis
          by (simp add: Let_def deferred_reject_def complete_def)
      qed
    qed
  qed
qed

section \<open>Running the functions in the small world\<close>

lemma regex_TileFormat: "regexTestI ''tileformat'' ''TileFormat''"
  by code_simp

lemma regex_BoundingBox:
  "\<not> regexTestI ''tileformat'' ''BoundingBox''"
  "\<not> regexTestI ''tilesets'' ''BoundingBox''"
  "regexTestI ''boundingbox'' ''BoundingBox''"
  by code_simp+

lemma regex_TileSets:
  "\<not> regexTestI ''tileformat'' ''TileSets''"
  "regexTestI ''tilesets'' ''TileSets''"
  by code_simp+

lemma regex_TileSet: "regexTestI ''tileset'' ''TileSet''"
  by code_simp

lemmas regex_facts = regex_TileFormat regex_BoundingBox regex_TileSets regex_TileSet

lemmas node_defs = tileFormatNode_def boundingBoxNode_def tileSetsNode_def tileSetNode_def
  emptyTileSetsNode_def

lemma scan_fullSections:
  "scanNodes (fullSections p) emptyScan =
     \<lparr>sc_format = Some tileFormatNode, sc_bbox = Some boundingBoxNode,
      sc_tilesets = Some (tileSetsNode p), sc_srs = None,
      sc_tilesetsList = [tileSetNode ''2'', tileSetNode ''9'']\<rparr>"
  by (simp add: fullSections_def node_defs emptyScan_def regex_facts del: regexTestI.simps)

lemma scan_noFormatSections:
  "scanNodes (noFormatSections p) emptyScan =
     \<lparr>sc_format = None, sc_bbox = Some boundingBoxNode,
      sc_tilesets = Some (tileSetsNode p), sc_srs = None,
      sc_tilesetsList = [tileSetNode ''2'', tileSetNode ''9'']\<rparr>"
  by (simp add: noFormatSections_def node_defs emptyScan_def regex_facts del: regexTestI.simps)

lemma scan_noTileSetSections:
  "scanNodes (noTileSetSections p) emptyScan =
     \<lparr>sc_format = Some tileFormatNode, sc_bbox = Some boundingBoxNode,
      sc_tilesets = Some (emptyTileSetsNode p), sc_srs = None, sc_tilesetsList = []\<rparr>"
  by (simp add: noTileSetSections_def node_defs emptyScan_def regex_facts
      del: regexTestI.simps)

lemma scan_noBoundingBoxSections:
  "scanNodes (noBoundingBoxSections p) emptyScan =
     \<lparr>sc_format = Some tileFormatNode, sc_bbox = None,
      sc_tilesets = Some (tileSetsNode p), sc_srs = None,
      sc_tilesetsList = [tileSetNode ''2'', tileSetNode ''9'']\<rparr>"
  by (simp add: noBoundingBoxSections_def node_defs emptyScan_def regex_facts
      del: regexTestI.simps)

lemma root_document: "rootChildNodes (document secs) = Inr secs"
  by (simp add: rootChildNodes_def document_def)

lemma noOptions_fields:
  "opt_url noOptions = Some ''tiles''" "opt_fileExtension noOptions = None"
  "opt_proxy noOptions = None" "opt_credit noOptions = None"
  "opt_minimumLevel noOptions = None" "opt_maximumLevel noOptions = None"
  "opt_rectangle noOptions = None" "opt_tilingScheme noOptions = None"
  "opt_ellipsoid noOptions = None" "opt_tileWidth noOptions = None"
  "opt_tileHeight noOptions = None" "opt_flipXY noOptions = None"
  "opt_tileDiscardPolicy noOptions = None"
  by (simp_all add: noOptions_def)

lemma rectangleOptions_fields:
  "opt_url rectangleOptions = Some ''tiles''" "opt_fileExtension rectangleOptions = None"
  "opt_proxy rectangleOptions = None" "opt_credit rectangleOptions = None"
  "opt_minimumLevel rectangleOptions = None" "opt_maximumLevel rectangleOptions = None"
  "opt_rectangle rectangleOptions = Some 2" "opt_tilingScheme rectangleOptions = None"
  "opt_ellipsoid rectangleOptions = None" "opt_tileWidth rectangleOptions = None"
  "opt_tileHeight rectangleOptions = None" "opt_flipXY rectangleOptions = None"
  "opt_tileDiscardPolicy rectangleOptions = None"
  by (simp_all add: rectangleOptions_def noOptions_def)

lemma exampleEnv_fields:
  "joinUrls exampleEnv a b = a @ ''/'' @ b"
  "parseInt10 exampleEnv (Some ''2'') = Fin 2"
  "parseInt10 exampleEnv (Some ''9'') = Fin 9"
  "parseInt10 exampleEnv (Some ''256'') = Fin 256"
  "parseFloat exampleEnv (Some ''-120'') = Fin (- 120)"
  "parseFloat exampleEnv (Some ''20'') = Fin 20"
  "parseFloat exampleEnv (Some ''-60'') = Fin (- 60)"
  "parseFloat exampleEnv (Some ''40'') = Fin 40"
  "fromDegrees exampleEnv x y = \<lparr>longitude = x, latitude = y\<rparr>"
  "webMercatorRectangle exampleEnv e = 1"
  "geographicRectangle exampleEnv e = 0"
  by (simp_all add: exampleEnv_def)

lemma exampleEnv_positionToTileXY:
  "positionToTileXY exampleEnv t \<lparr>longitude = Fin a, latitude = Fin b\<rparr> l =
     (if l = Fin 0 then Some (TileXY 0 0)
      else Some (TileXY (if a < - 90 then 0 else if a < 0 then 1 else if a < 90 then 2 else 3)
                        (if b < 0 then 0 else 1)))"
  by (simp add: exampleEnv_def)

lemma node_attributes:
  "getAttribute tileFormatNode ''extension'' = Some ''png''"
  "getAttribute tileFormatNode ''width'' = Some ''256''"
  "getAttribute tileFormatNode ''height'' = Some ''256''"
  "getAttribute (tileSetNode v) ''order'' = Some v"
  "getAttribute (tileSetsNode p) ''profile'' = Some p"
  "getAttribute (emptyTileSetsNode p) ''profile'' = Some p"
  "getAttribute boundingBoxNode ''minx'' = Some ''-120''"
  "getAttribute boundingBoxNode ''miny'' = Some ''20''"
  "getAttribute boundingBoxNode ''maxx'' = Some ''-60''"
  "getAttribute boundingBoxNode ''maxy'' = Some ''40''"
  by (simp_all add: getAttribute_def node_defs)

lemma exampleStore_nth:
  "(exampleStore @ [r]) ! 1 =
     \<lparr>west = Fin (- 180), south = Fin (- 85), east = Fin 180, north = Fin 85\<rparr>"
  "exampleStore ! 2 = wideRectangle"
  "(exampleStore @ [r]) ! 3 = r"
  "length exampleStore = 3"
  by (simp_all add: exampleStore_def)

lemma basics_fullSections:
  assumes "opt_fileExtension opts = None" "opt_tileWidth opts = None"
    "opt_tileHeight opts = None" "opt_minimumLevel opts = None" "opt_maximumLevel opts = None"
  shows "readBasics exampleEnv opts (scanNodes (fullSections p) emptyScan)
    = Inr \<lparr>b_fileExtension = Some ''png'', b_tileWidth = Fin 256, b_tileHeight = Fin 256,
       b_minimumLevel = Fin 2, b_maximumLevel = Fin 9, b_tilingSchemeName = Some p\<rparr>"
  by (simp add: scan_fullSections readBasics_def defaultValue_def assms node_attributes
      exampleEnv_fields)

lemma choose_mercator:
  assumes "opt_tilingScheme opts = None" "opt_ellipsoid opts = None"
  shows "chooseTilingScheme exampleEnv opts u (Some ''mercator'') = Inr mercatorScheme"
  by (simp add: chooseTilingScheme_def assms newWebMercatorTilingScheme_def exampleEnv_fields
      mercatorScheme_def)

lemma derived_bboxRectangle:
  "derivedRectangle exampleEnv noOptions mercatorScheme (Some ''mercator'') boundingBoxNode
    = bboxRectangle"
  by (simp add: derivedRectangle_def bboxCorners_def toCartographic_def defaultValue_def
      noOptions_fields node_attributes exampleEnv_fields bboxRectangle_def)

lemma rectangleHandling_noOptions:
  "rectangleHandling exampleEnv noOptions mercatorScheme (Some ''mercator'')
     (scanNodes (fullSections p) emptyScan) exampleStore
    = (Inr 3, exampleStore @ [bboxRectangle])"
  by (simp add: rectangleHandling_def Rectangle_clone_def newRectangle_def scan_fullSections
      derived_bboxRectangle noOptions_fields exampleStore_nth)

lemma rectangleHandling_rectangleOptions:
  "rectangleHandling exampleEnv rectangleOptions mercatorScheme name sc exampleStore
    = (Inr 3, exampleStore @ [wideRectangle])"
  by (simp add: rectangleHandling_def Rectangle_clone_def newRectangle_def
      rectangleOptions_fields exampleStore_nth)

lemma clamp_bboxRectangle:
  "clampInStore (exampleStore @ [bboxRectangle]) mercatorScheme 3
    = exampleStore @ [bboxRectangle]"
  by (simp add: clampInStore_def exampleStore_def mercatorScheme_def clampToScheme_def
      js_gt_def bboxRectangle_def)

lemma clamp_wideRectangle:
  "clampInStore (exampleStore @ [wideRectangle]) mercatorScheme 3
    = exampleStore @ [clampedWideRectangle]"
  by (simp add: clampInStore_def exampleStore_def mercatorScheme_def clampToScheme_def
      js_gt_def wideRectangle_def clampedWideRectangle_def)

lemma check_bboxRectangle:
  "checkMinimumLevel exampleEnv mercatorScheme bboxRectangle (Fin 2) = Inr (Fin 2)"
  by (simp add: checkMinimumLevel_def exampleEnv_positionToTileXY Rectangle_southwest_def
      Rectangle_northeast_def tileCount_def bboxRectangle_def)

lemma check_clampedWideRectangle:
  "checkMinimumLevel exampleEnv mercatorScheme clampedWideRectangle (Fin 2) = Inr (Fin 0)"
  by (simp add: checkMinimumLevel_def exampleEnv_positionToTileXY Rectangle_southwest_def
      Rectangle_northeast_def tileCount_def clampedWideRectangle_def)

lemma success_noOptions:
  "metadataSuccess exampleEnv noOptions ''tiles'' exampleStore
     (document (fullSections ''mercator''))
    = (Resolve derivedConfig, exampleStore @ [bboxRectangle])"
  by (simp add: metadataSuccess_def root_document basics_fullSections choose_mercator
      rectangleHandling_noOptions clamp_bboxRectangle exampleStore_nth check_bboxRectangle
      noOptions_fields templateUrl_def toStringJS_def exampleEnv_fields derivedConfig_def)

lemma success_rectangleOptions:
  "metadataSuccess exampleEnv rectangleOptions ''tiles'' exampleStore
     (document (fullSections ''mercator''))
    = (Resolve overrideConfig, exampleStore @ [clampedWideRectangle])"
  by (simp add: metadataSuccess_def root_document basics_fullSections choose_mercator
      rectangleHandling_rectangleOptions clamp_wideRectangle exampleStore_nth
      check_clampedWideRectangle rectangleOptions_fields templateUrl_def toStringJS_def
      exampleEnv_fields derivedConfig_def overrideConfig_def)

text \<open>A document that lacks a section: the first read of the missing node throws.\<close>

lemma threw_noFormat:
  "metadataSuccess E opts u h (document (noFormatSections p)) = (Threw TypeError, h)"
  by (simp add: metadataSuccess_def root_document scan_noFormatSections readBasics_def)

lemma threw_noTileSet:
  "metadataSuccess E opts u h (document (noTileSetSections p)) = (Threw TypeError, h)"
  by (simp add: metadataSuccess_def root_document scan_noTileSetSections readBasics_def)

lemma threw_noBoundingBox:
  "metadataSuccess exampleEnv noOptions ''tiles'' exampleStore
     (document (noBoundingBoxSections ''mercator'')) = (Threw TypeError, exampleStore)"
  by (simp add: metadataSuccess_def root_document scan_noBoundingBoxSections readBasics_def
      defaultValue_def node_attributes choose_mercator noOptions_fields rectangleHandling_def
      Rectangle_clone_def)

lemma unsupported_local:
  "metadataSuccess exampleEnv noOptions ''tiles'' exampleStore (document (fullSections ''local''))
    = (Unsupported
         ''tiles/tilemapresource.xmlspecifies an unsupported profile attribute, local.'',
       exampleStore)"
  by (simp add: metadataSuccess_def root_document basics_fullSections noOptions_fields
      chooseTilingScheme_def unsupportedMessage_def toStringJS_def exampleEnv_fields)

section \<open>The unsupported-profile branch and the scheme override\<close>

lemma chooseTilingScheme_unsupported:
  assumes "opt_tilingScheme opts = None"
    and "name \<noteq> Some ''geodetic''" and "name \<noteq> Some ''global-geodetic''"
    and "name \<noteq> Some ''mercator''" and "name \<noteq> Some ''global-mercator''"
  shows "chooseTilingScheme E opts u name = Inl (unsupportedMessage E u name)"
  using assms by (simp add: chooseTilingScheme_def)

lemma chooseTilingScheme_override:
  assumes "opt_tilingScheme opts = Some t"
  shows "chooseTilingScheme E opts u name = Inr t"
  using assms by (simp add: chooseTilingScheme_def)

text \<open>Where the reads of lines 144-149 succeed, an unsupported profile without a scheme
  override is reported, and without a retry the deferred is rejected.\<close>

lemma unsupported_profile_rejected:
  assumes "opt_url opts = Some u" and "opt_tilingScheme opts = None"
    and "rootChildNodes xml = Inr nodeList"
    and "readBasics E opts (scanNodes nodeList emptyScan) = Inr b"
    and "b_tilingSchemeName b \<noteq> Some ''geodetic''"
    and "b_tilingSchemeName b \<noteq> Some ''global-geodetic''"
    and "b_tilingSchemeName b \<noteq> Some ''mercator''"
    and "b_tilingSchemeName b \<noteq> Some ''global-mercator''"
    and "response a = Some xml" and "\<not> retryGranted a"
  shows "\<exists>st. createTileMapServiceImageryProvider E opts (a # rest) h = Inr st \<and>
           st_deferred st = Rejected (RuntimeError (unsupportedMessage E u (b_tilingSchemeName b))) \<and>
           st_reported st = [unsupportedMessage E u (b_tilingSchemeName b)] \<and>
           st_completions st = 1"
proof -
  have "metadataSuccess E opts u h xml
      = (Unsupported (unsupportedMessage E u (b_tilingSchemeName b)), h)"
    using assms(3,4) chooseTilingScheme_unsupported [OF assms(2,5,6,7,8), of E u]
    by (simp add: metadataSuccess_def)
  with assms(1,9,10) show ?thesis
    by (simp add: createTileMapServiceImageryProvider_def initialState_def Let_def
        deferred_reject_def complete_def)
qed

text \<open>With a scheme override no call ends in the unsupported-profile branch, and a call
  that resolves delivers the override.\<close>

lemma scheme_override_used:
  assumes "opt_tilingScheme opts = Some t"
    and "metadataSuccess E opts u h xml = (out, h')"
  shows "case out of Unsupported m \<Rightarrow> False | Resolve cfg \<Rightarrow> cfg_tilingScheme cfg = t
         | Threw e \<Rightarrow> True"
  using assms(2) chooseTilingScheme_override [OF assms(1), of E u]
  unfolding metadataSuccess_def
  by (auto simp: Let_def split: sum.splits prod.splits outcome.splits)

lemma resolve_completes_once:
  assumes "opt_url opts = Some u" and "response a = Some xml"
    and "metadataSuccess E opts u h xml = (Resolve cfg, h')"
  shows "\<exists>st. createTileMapServiceImageryProvider E opts (a # rest) h = Inr st \<and>
           st_deferred st = Fulfilled cfg \<and> st_completions st = 1"
  using assms
  by (simp add: createTileMapServiceImageryProvider_def initialState_def Let_def
      deferred_resolve_def complete_def)

section \<open>Documents that lack a section\<close>

text \<open>The reads of lines 144-148 are not guarded: whatever the options are, a document
  without a format node, or without a tileset entry, makes the call throw.\<close>

lemma missing_format_throws:
  assumes "rootChildNodes xml = Inr nodeList"
    and "sc_format (scanNodes nodeList emptyScan) = None"
  shows "metadataSuccess E opts u h xml = (Threw TypeError, h)"
  using assms by (simp add: metadataSuccess_def readBasics_def)

lemma missing_tileset_entries_throw:
  assumes "rootChildNodes xml = Inr nodeList"
    and "sc_tilesetsList (scanNodes nodeList emptyScan) = []"
  shows "metadataSuccess E opts u h xml = (Threw TypeError, h)"
proof -
  have "readBasics E opts (scanNodes nodeList emptyScan) = Inl TypeError"
    using assms(2) by (simp add: readBasics_def split: option.splits)
  with assms(1) show ?thesis by (simp add: metadataSuccess_def)
qed

text \<open>An exception in \<open>metadataSuccess\<close> leaves the deferred as it was.\<close>

lemma exception_leaves_deferred:
  assumes "response a = Some xml"
    and "metadataSuccess E opts u (st_store st) xml = (Threw e, h')"
  shows "st_deferred (requestMetadata E opts u (a # rest) st) = st_deferred st \<and>
         st_completions (requestMetadata E opts u (a # rest) st) = st_completions st"
  using assms by (simp add: Let_def)

text \<open>
  C1. The specification asks that for every call with a url the deferred is completed
  exactly once, whether the fetch succeeds, fails or yields an unsupported profile
  without a retry. No path completes it twice (\<open>requestMetadata_at_most_once\<close>), but a fetch that
  succeeds with a document lacking the format section makes \<open>metadataSuccess\<close> throw at
  its first read; the exception ends in the promise nobody reads, and the deferred stays
  pending with no completion at all.
\<close>

theorem missing_format_leaves_deferred_pending:
  "\<exists>st. createTileMapServiceImageryProvider exampleEnv noOptions
           [answer (document (noFormatSections ''mercator''))] exampleStore = Inr st \<and>
        st_deferred st = Pending \<and> st_completions st = 0"
  by (simp add: createTileMapServiceImageryProvider_def noOptions_fields answer_def
      threw_noFormat initialState_def Let_def)

text \<open>
  C2. The specification asks that a document in which the format, the tileset list (or
  its entries), the bounding box or the spatial reference is absent does not crash the
  success path. An absent spatial reference does no harm. The
  function reads attributes of the format node, of the first and last tileset entry and
  (without a rectangle override) of the bounding-box node with no check, so each of
  these three absences ends in a TypeError.
\<close>

theorem missing_section_throws:
  "fst (metadataSuccess exampleEnv noOptions ''tiles'' exampleStore
          (document (noFormatSections ''mercator''))) = Threw TypeError \<and>
   fst (metadataSuccess exampleEnv noOptions ''tiles'' exampleStore
          (document (noTileSetSections ''mercator''))) = Threw TypeError \<and>
   fst (metadataSuccess exampleEnv noOptions ''tiles'' exampleStore
          (document (noBoundingBoxSections ''mercator''))) = Threw TypeError"
  by (simp add: threw_noFormat threw_noTileSet threw_noBoundingBox)

text \<open>
  C4. The specification asks that for every document whose declared profile is none of
  the four names, without a scheme override the unsupported profile is reported and,
  with no retry, the deferred is rejected; with a scheme override the mapping is
  skipped. Both hold where
  the reads before the profile check succeed (\<open>unsupported_profile_rejected\<close>,
  \<open>scheme_override_used\<close>). A document that declares the profile \<open>local\<close> and has no
  format section never reaches the check: nothing is reported and the deferred is not
  rejected.
\<close>

theorem unsupported_profile_without_format_not_reported:
  "\<exists>st. createTileMapServiceImageryProvider exampleEnv noOptions
           [answer (document (noFormatSections ''local''))] exampleStore = Inr st \<and>
        st_reported st = [] \<and> st_metadataError st = None \<and> st_deferred st = Pending"
  by (simp add: createTileMapServiceImageryProvider_def noOptions_fields answer_def
      threw_noFormat initialState_def Let_def)

section \<open>The fallback path\<close>

text \<open>
  C3. When the fetch or the parse of the capabilities document fails, the call still
  ends with the deferred fulfilled, once, and nothing is reported for the failure. The
  configuration delivered has the caller's value in every field the caller gave and
  otherwise: extension \<open>png\<close> in the url template, tile width and height 256, minimum
  level 0, no maximum level, a web-mercator scheme built on the caller's ellipsoid, and
  as rectangle the rectangle object of the scheme chosen. The failing request may be the
  first one or follow requests that ended in a retried unsupported profile.
\<close>

theorem fallback_configuration:
  assumes "opt_url opts = Some u" and "list_all (retried E opts u h) pre"
    and "response a = None"
  shows "\<exists>st cfg.
     createTileMapServiceImageryProvider E opts (pre @ a # rest) h = Inr st \<and>
     st_deferred st = Fulfilled cfg \<and> st_completions st = 1 \<and>
     length (st_reported st) = length pre \<and>
     cfg_url cfg =
       joinUrls E u (''{z}/{x}/{reverseY}.'' @
         (case opt_fileExtension opts of Some e \<Rightarrow> e | None \<Rightarrow> ''png'')) \<and>
     cfg_tileWidth cfg = (case opt_tileWidth opts of Some w \<Rightarrow> w | None \<Rightarrow> Fin 256) \<and>
     cfg_tileHeight cfg = (case opt_tileHeight opts of Some w \<Rightarrow> w | None \<Rightarrow> Fin 256) \<and>
     cfg_minimumLevel cfg = (case opt_minimumLevel opts of Some l \<Rightarrow> l | None \<Rightarrow> Fin 0) \<and>
     cfg_maximumLevel cfg = opt_maximumLevel opts \<and>
     cfg_tilingScheme cfg =
       (case opt_tilingScheme opts of
          Some t \<Rightarrow> t
        | None \<Rightarrow> \<lparr>ts_class = WebMercatorTilingScheme,
                    ts_rectangle = webMercatorRectangle E (opt_ellipsoid opts),
                    ts_ellipsoid = opt_ellipsoid opts\<rparr>) \<and>
     cfg_rectangle cfg =
       (case opt_rectangle opts of
          Some p \<Rightarrow> p
        | None \<Rightarrow> ts_rectangle (cfg_tilingScheme cfg)) \<and>
     cfg_proxy cfg = opt_proxy opts \<and>
     cfg_tileDiscardPolicy cfg = opt_tileDiscardPolicy opts \<and>
     cfg_credit cfg = opt_credit opts"
proof -
  from fallback_run [OF assms, of rest] obtain st where st:
    "createTileMapServiceImageryProvider E opts (pre @ a # rest) h = Inr st"
    "st_deferred st = Fulfilled (metadataFailure E opts u)"
    "st_completions st = 1" "length (st_reported st) = length pre" by blast
  show ?thesis
    apply (rule exI [of _ st], rule exI [of _ "metadataFailure E opts u"])
    using st
    by (simp add: metadataFailure_def defaultValue_def newWebMercatorTilingScheme_def Let_def
        split: option.splits)
qed

lemma retried_local:
  "list_all (retried exampleEnv noOptions ''tiles'' exampleStore)
     [answerWithRetry (document (fullSections ''local''))]"
  by (simp add: retried_def answerWithRetry_def unsupported_local)

theorem fallback_configuration_witness:
  "opt_url noOptions = Some ''tiles'' \<and>
   list_all (retried exampleEnv noOptions ''tiles'' exampleStore)
     [answerWithRetry (document (fullSections ''local''))] \<and>
   response noAnswer = None \<and>
   (\<exists>st cfg.
      createTileMapServiceImageryProvider exampleEnv noOptions
        [answerWithRetry (document (fullSections ''local'')), noAnswer] exampleStore = Inr st \<and>
      st_deferred st = Fulfilled cfg \<and> st_completions st = 1 \<and>
      length (st_reported st) = 1 \<and>
      cfg_url cfg = ''tiles/{z}/{x}/{reverseY}.png'' \<and>
      cfg_tileWidth cfg = Fin 256 \<and> cfg_tileHeight cfg = Fin 256 \<and>
      cfg_minimumLevel cfg = Fin 0 \<and> cfg_maximumLevel cfg = None \<and>
      cfg_tilingScheme cfg = mercatorScheme \<and> cfg_rectangle cfg = 1)"
proof -
  have h1: "opt_url noOptions = Some ''tiles''" by (simp add: noOptions_fields)
  have h3: "response noAnswer = None" by (simp add: noAnswer_def)
  from fallback_configuration [OF h1 retried_local h3, of "[]"]
  have "\<exists>st cfg.
      createTileMapServiceImageryProvider exampleEnv noOptions
        [answerWithRetry (document (fullSections ''local'')), noAnswer] exampleStore = Inr st \<and>
      st_deferred st = Fulfilled cfg \<and> st_completions st = 1 \<and>
      length (st_reported st) = 1 \<and>
      cfg_url cfg = ''tiles/{z}/{x}/{reverseY}.png'' \<and>
      cfg_tileWidth cfg = Fin 256 \<and> cfg_tileHeight cfg = Fin 256 \<and>
      cfg_minimumLevel cfg = Fin 0 \<and> cfg_maximumLevel cfg = None \<and>
      cfg_tilingScheme cfg = mercatorScheme \<and> cfg_rectangle cfg = 1"
    by (auto simp: noOptions_fields exampleEnv_fields mercatorScheme_def)
  with h1 h3 retried_local show ?thesis by blast
qed

text \<open>
  C9. On the fallback path the overrides are adopted as they are: the configuration's
  rectangle is the caller's own object, which nothing has written to (the store is
  unchanged, so it holds the caller's edges whatever the scheme's rectangle is), and the
  minimum level is the caller's whatever the tile count at that level is. The instance
  below delivers a rectangle whose west edge lies beyond the scheme's and a minimum
  level at which the rectangle spans eight tiles.
\<close>

theorem fallback_adopts_overrides_verbatim:
  assumes "opt_url opts = Some u" and "list_all (retried E opts u h) pre"
    and "response a = None"
    and "opt_rectangle opts = Some p" and "opt_minimumLevel opts = Some m"
  shows "\<exists>st cfg.
     createTileMapServiceImageryProvider E opts (pre @ a # rest) h = Inr st \<and>
     st_deferred st = Fulfilled cfg \<and>
     cfg_rectangle cfg = p \<and> st_store st = h \<and>
     st_store st ! cfg_rectangle cfg = h ! p \<and> cfg_minimumLevel cfg = m"
proof -
  from fallback_run [OF assms(1-3), of rest] obtain st where st:
    "createTileMapServiceImageryProvider E opts (pre @ a # rest) h = Inr st"
    "st_deferred st = Fulfilled (metadataFailure E opts u)" "st_store st = h" by blast
  show ?thesis
    apply (rule exI [of _ st], rule exI [of _ "metadataFailure E opts u"])
    using st assms(4,5)
    by (simp add: metadataFailure_def defaultValue_def Let_def)
qed

lemma overrideOptions_fields:
  "opt_url overrideOptions = Some ''tiles''" "opt_rectangle overrideOptions = Some 2"
  "opt_minimumLevel overrideOptions = Some (Fin 9)" "opt_tilingScheme overrideOptions = None"
  "opt_ellipsoid overrideOptions = None"
  by (simp_all add: overrideOptions_def noOptions_def)

theorem fallback_adopts_overrides_verbatim_witness:
  "opt_url overrideOptions = Some ''tiles'' \<and>
   list_all (retried exampleEnv overrideOptions ''tiles'' exampleStore) [] \<and>
   response noAnswer = None \<and>
   opt_rectangle overrideOptions = Some 2 \<and>
   opt_minimumLevel overrideOptions = Some (Fin 9) \<and>
   (\<exists>st cfg.
      createTileMapServiceImageryProvider exampleEnv overrideOptions [noAnswer] exampleStore
        = Inr st \<and>
      st_deferred st = Fulfilled cfg \<and>
      cfg_rectangle cfg = 2 \<and> st_store st = exampleStore \<and>
      st_store st ! cfg_rectangle cfg = wideRectangle \<and> cfg_minimumLevel cfg = Fin 9 \<and>
      cfg_tilingScheme cfg = mercatorScheme \<and>
      js_lt (west (st_store st ! cfg_rectangle cfg))
            (west (st_store st ! ts_rectangle (cfg_tilingScheme cfg))) \<and>
      js_gt (east (st_store st ! cfg_rectangle cfg))
            (east (st_store st ! ts_rectangle (cfg_tilingScheme cfg))) \<and>
      positionToTileXY exampleEnv (cfg_tilingScheme cfg)
        (Rectangle_southwest (st_store st ! cfg_rectangle cfg)) (cfg_minimumLevel cfg)
        = Some (TileXY 0 0) \<and>
      positionToTileXY exampleEnv (cfg_tilingScheme cfg)
        (Rectangle_northeast (st_store st ! cfg_rectangle cfg)) (cfg_minimumLevel cfg)
        = Some (TileXY 3 1) \<and>
      tileCount (TileXY 0 0) (TileXY 3 1) = 8)"
proof -
  have h1: "opt_url overrideOptions = Some ''tiles''"
    and h4: "opt_rectangle overrideOptions = Some 2"
    and h5: "opt_minimumLevel overrideOptions = Some (Fin 9)"
    by (simp_all add: overrideOptions_fields)
  have h2: "list_all (retried exampleEnv overrideOptions ''tiles'' exampleStore) []" by simp
  have h3: "response noAnswer = None" by (simp add: noAnswer_def)
  from fallback_adopts_overrides_verbatim [OF h1 h2 h3 h4 h5, of "[]"]
  obtain st cfg where r:
    "createTileMapServiceImageryProvider exampleEnv overrideOptions ([] @ [noAnswer]) exampleStore
       = Inr st"
    "st_deferred st = Fulfilled cfg" "cfg_rectangle cfg = 2" "st_store st = exampleStore"
    "st_store st ! cfg_rectangle cfg = exampleStore ! 2" "cfg_minimumLevel cfg = Fin 9"
    by blast
  from r(1) h1 h3
  have "st_deferred st = Fulfilled (metadataFailure exampleEnv overrideOptions ''tiles'')"
    by (auto simp: createTileMapServiceImageryProvider_def Let_def deferred_resolve_def
        complete_def initialState_def)
  with r(2) have "cfg = metadataFailure exampleEnv overrideOptions ''tiles''" by simp
  then have t: "cfg_tilingScheme cfg = mercatorScheme"
    by (simp add: metadataFailure_def Let_def overrideOptions_fields
        newWebMercatorTilingScheme_def exampleEnv_fields mercatorScheme_def)
  have "js_lt (west wideRectangle) (west (exampleStore ! 1))"
    "js_gt (east wideRectangle) (east (exampleStore ! 1))"
    "positionToTileXY exampleEnv mercatorScheme (Rectangle_southwest wideRectangle) (Fin 9)
       = Some (TileXY 0 0)"
    "positionToTileXY exampleEnv mercatorScheme (Rectangle_northeast wideRectangle) (Fin 9)
       = Some (TileXY 3 1)"
    "tileCount (TileXY 0 0) (TileXY 3 1) = 8"
    by (simp_all add: exampleStore_def wideRectangle_def js_gt_def Rectangle_southwest_def
        Rectangle_northeast_def exampleEnv_positionToTileXY tileCount_def)
  with r t h1 h2 h3 h4 h5 show ?thesis
    by (simp add: exampleStore_nth mercatorScheme_def)
qed

section \<open>The rectangle on the success path\<close>

text \<open>
  C6. When no rectangle override is given and the call resolves, the rectangle delivered
  is the clamped form of the rectangle built from the bounding box: with \<open>flipXY\<close> set
  the roles of the x and y attributes are exchanged; if the scheme resolved is a
  geographic one or the profile is \<open>geodetic\<close> or \<open>mercator\<close> the pairs are taken as
  degrees (\<open>fromDegrees\<close>), otherwise they go through the scheme's inverse projection;
  west and south come from the southwest corner, east and north from the northeast one.
\<close>

theorem rectangle_derived_from_bounding_box:
  assumes "metadataSuccess E opts u h xml = (Resolve cfg, h')"
    and "opt_rectangle opts = None"
  shows "\<exists>nodeList tsets bb.
     rootChildNodes xml = Inr nodeList \<and>
     sc_tilesets (scanNodes nodeList emptyScan) = Some tsets \<and>
     sc_bbox (scanNodes nodeList emptyScan) = Some bb \<and>
     (let t = cfg_tilingScheme cfg;
          name = getAttribute tsets ''profile'';
          minx = parseFloat E (getAttribute bb ''minx'');
          miny = parseFloat E (getAttribute bb ''miny'');
          maxx = parseFloat E (getAttribute bb ''maxx'');
          maxy = parseFloat E (getAttribute bb ''maxy'');
          flip = (opt_flipXY opts = Some True);
          swX = (if flip then miny else minx);
          swY = (if flip then minx else miny);
          neX = (if flip then maxy else maxx);
          neY = (if flip then maxx else maxy);
          degrees = (ts_class t = GeographicTilingScheme \<or> name = Some ''geodetic''
                       \<or> name = Some ''mercator'');
          sw = (if degrees then fromDegrees E swX swY else unproject E t (Cartesian2 swX swY));
          ne = (if degrees then fromDegrees E neX neY else unproject E t (Cartesian2 neX neY))
      in h' ! cfg_rectangle cfg =
           clampToScheme (h' ! ts_rectangle t)
             \<lparr>west = longitude sw, south = latitude sw,
              east = longitude ne, north = latitude ne\<rparr>)"
proof -
  from assms(1) obtain nodeList tsets r0 where s:
    "rootChildNodes xml = Inr nodeList"
    "sc_tilesets (scanNodes nodeList emptyScan) = Some tsets"
    "case opt_rectangle opts of
       Some p \<Rightarrow> r0 = h ! p
     | None \<Rightarrow>
         (case sc_bbox (scanNodes nodeList emptyScan) of
            None \<Rightarrow> False
          | Some bb \<Rightarrow>
              r0 = derivedRectangle E opts (cfg_tilingScheme cfg)
                     (getAttribute tsets ''profile'') bb)"
    "h' ! cfg_rectangle cfg = clampToScheme (h' ! ts_rectangle (cfg_tilingScheme cfg)) r0"
    by (rule metadataSuccess_rectangle)
  from s(3) assms(2) obtain bb where bb:
    "sc_bbox (scanNodes nodeList emptyScan) = Some bb"
    "r0 = derivedRectangle E opts (cfg_tilingScheme cfg) (getAttribute tsets ''profile'') bb"
    by (auto split: option.splits)
  have flip: "defaultValue (opt_flipXY opts) False = (opt_flipXY opts = Some True)"
    by (cases "opt_flipXY opts") (simp_all add: defaultValue_def)
  show ?thesis
    apply (rule exI [of _ nodeList], rule exI [of _ tsets], rule exI [of _ bb])
    using s(1,2,4) bb
    by (simp add: derivedRectangle_def bboxCorners_def toCartographic_def Let_def flip)
qed

theorem rectangle_derived_from_bounding_box_witness:
  "metadataSuccess exampleEnv noOptions ''tiles'' exampleStore
     (document (fullSections ''mercator''))
     = (Resolve derivedConfig, exampleStore @ [bboxRectangle]) \<and>
   opt_rectangle noOptions = None \<and>
   (\<exists>nodeList tsets bb.
     rootChildNodes (document (fullSections ''mercator'')) = Inr nodeList \<and>
     sc_tilesets (scanNodes nodeList emptyScan) = Some tsets \<and>
     sc_bbox (scanNodes nodeList emptyScan) = Some bb \<and>
     (let t = cfg_tilingScheme derivedConfig;
          name = getAttribute tsets ''profile'';
          minx = parseFloat exampleEnv (getAttribute bb ''minx'');
          miny = parseFloat exampleEnv (getAttribute bb ''miny'');
          maxx = parseFloat exampleEnv (getAttribute bb ''maxx'');
          maxy = parseFloat exampleEnv (getAttribute bb ''maxy'');
          flip = (opt_flipXY noOptions = Some True);
          swX = (if flip then miny else minx);
          swY = (if flip then minx else miny);
          neX = (if flip then maxy else maxx);
          neY = (if flip then maxx else maxy);
          degrees = (ts_class t = GeographicTilingScheme \<or> name = Some ''geodetic''
                       \<or> name = Some ''mercator'');
          sw = (if degrees then fromDegrees exampleEnv swX swY
                else unproject exampleEnv t (Cartesian2 swX swY));
          ne = (if degrees then fromDegrees exampleEnv neX neY
                else unproject exampleEnv t (Cartesian2 neX neY))
      in (exampleStore @ [bboxRectangle]) ! cfg_rectangle derivedConfig =
           clampToScheme ((exampleStore @ [bboxRectangle]) ! ts_rectangle t)
             \<lparr>west = longitude sw, south = latitude sw,
              east = longitude ne, north = latitude ne\<rparr>)) \<and>
   (exampleStore @ [bboxRectangle]) ! cfg_rectangle derivedConfig =
     \<lparr>west = Fin (- 120), south = Fin 20, east = Fin (- 60), north = Fin 40\<rparr>"
proof -
  have h2: "opt_rectangle noOptions = None" by (simp add: noOptions_fields)
  have v: "(exampleStore @ [bboxRectangle]) ! cfg_rectangle derivedConfig =
      \<lparr>west = Fin (- 120), south = Fin 20, east = Fin (- 60), north = Fin 40\<rparr>"
    by (simp add: derivedConfig_def exampleStore_nth bboxRectangle_def)
  from rectangle_derived_from_bounding_box [OF success_noOptions h2] success_noOptions h2 v
  show ?thesis by blast
qed

text \<open>
  For a call that resolves, the rectangle delivered is the rectangle before clamping
  (the copy of the caller's rectangle when one was given, the rectangle derived from the
  bounding box otherwise) with each edge set by its own comparison with the same edge
  of the scheme's rectangle: a west or south edge below the scheme's takes the scheme's
  value, an east or north edge above the scheme's takes the scheme's value, and every
  other edge keeps its value. No edge is compared with the opposite bound.
\<close>

lemma rectangle_clamped_to_scheme:
  assumes "metadataSuccess E opts u h xml = (Resolve cfg, h')"
  shows "\<exists>nodeList tsets r0.
     rootChildNodes xml = Inr nodeList \<and>
     sc_tilesets (scanNodes nodeList emptyScan) = Some tsets \<and>
     (case opt_rectangle opts of
        Some p \<Rightarrow> r0 = h ! p
      | None \<Rightarrow>
          (case sc_bbox (scanNodes nodeList emptyScan) of
             None \<Rightarrow> False
           | Some bb \<Rightarrow>
               r0 = derivedRectangle E opts (cfg_tilingScheme cfg)
                      (getAttribute tsets ''profile'') bb)) \<and>
     (let b = h' ! ts_rectangle (cfg_tilingScheme cfg);
          r = h' ! cfg_rectangle cfg
      in west r = (if js_lt (west r0) (west b) then west b else west r0) \<and>
         south r = (if js_lt (south r0) (south b) then south b else south r0) \<and>
         east r = (if js_gt (east r0) (east b) then east b else east r0) \<and>
         north r = (if js_gt (north r0) (north b) then north b else north r0))"
proof -
  from assms obtain nodeList tsets r0 where s:
    "rootChildNodes xml = Inr nodeList"
    "sc_tilesets (scanNodes nodeList emptyScan) = Some tsets"
    "case opt_rectangle opts of
       Some p \<Rightarrow> r0 = h ! p
     | None \<Rightarrow>
         (case sc_bbox (scanNodes nodeList emptyScan) of
            None \<Rightarrow> False
          | Some bb \<Rightarrow>
              r0 = derivedRectangle E opts (cfg_tilingScheme cfg)
                     (getAttribute tsets ''profile'') bb)"
    "h' ! cfg_rectangle cfg = clampToScheme (h' ! ts_rectangle (cfg_tilingScheme cfg)) r0"
    by (rule metadataSuccess_rectangle)
  show ?thesis
    apply (rule exI [of _ nodeList], rule exI [of _ tsets], rule exI [of _ r0])
    using s by (simp add: Let_def clampToScheme_edges)
qed

text \<open>An edge beyond the opposite bound of the scheme's rectangle passes all four
  comparisons unchanged.\<close>

lemma clampToScheme_far_side:
  assumes "js_gt (west r) (east b)" and "\<not> js_lt (west r) (west b)"
  shows "west (clampToScheme b r) = west r"
  using assms by (simp add: clampToScheme_edges)








text \<open>
  C10. A rectangle override that is an object of the store is never written to: after
  any call of \<open>metadataSuccess\<close>, and after any whole call whatever the answers to its
  requests, the object holds what it held before. A call of \<open>metadataSuccess\<close> that
  resolves delivers another object, the clone it clamped.
\<close>

theorem rectangle_override_not_mutated:
  assumes "opt_rectangle opts = Some p" and "p < length h"
    and "metadataSuccess E opts u h xml = (out, h')"
    and "createTileMapServiceImageryProvider E opts script h = Inr st"
  shows "h' ! p = h ! p \<and>
         (case out of Resolve cfg \<Rightarrow> cfg_rectangle cfg \<noteq> p | Threw e \<Rightarrow> True
          | Unsupported m \<Rightarrow> True) \<and>
         st_store st ! p = h ! p"
proof (intro conjI)
  from assms(3,2) show "h' ! p = h ! p" by (rule metadataSuccess_store)
  show "case out of Resolve cfg \<Rightarrow> cfg_rectangle cfg \<noteq> p | Threw e \<Rightarrow> True
        | Unsupported m \<Rightarrow> True"
  proof (cases out)
    case (Resolve cfg)
    with assms(3) have "metadataSuccess E opts u h xml = (Resolve cfg, h')" by simp
    then have "cfg_rectangle cfg = length h" by (rule metadataSuccess_rectangle)
    with assms(2) Resolve show ?thesis by simp
  qed simp_all
  from assms(4) obtain v where "st = requestMetadata E opts v script (initialState h)"
    by (auto simp: createTileMapServiceImageryProvider_def split: option.splits)
  moreover have "p < length (st_store (initialState h))"
    using assms(2) by (simp add: initialState_def)
  ultimately show "st_store st ! p = h ! p"
    using requestMetadata_store [of p "initialState h" E opts v script]
    by (simp add: initialState_def)
qed

lemma run_rectangleOptions:
  "createTileMapServiceImageryProvider exampleEnv rectangleOptions
     [answer (document (fullSections ''mercator''))] exampleStore = Inr overrideRun"
  by (simp add: createTileMapServiceImageryProvider_def rectangleOptions_fields answer_def
      success_rectangleOptions initialState_def Let_def deferred_resolve_def complete_def
      resourceUrl_def exampleEnv_fields overrideRun_def)

theorem rectangle_override_not_mutated_witness:
  "opt_rectangle rectangleOptions = Some 2 \<and> 2 < length exampleStore \<and>
   metadataSuccess exampleEnv rectangleOptions ''tiles'' exampleStore
     (document (fullSections ''mercator''))
     = (Resolve overrideConfig, exampleStore @ [clampedWideRectangle]) \<and>
   createTileMapServiceImageryProvider exampleEnv rectangleOptions
     [answer (document (fullSections ''mercator''))] exampleStore = Inr overrideRun \<and>
   (exampleStore @ [clampedWideRectangle]) ! 2 = exampleStore ! 2 \<and>
   (case Resolve overrideConfig of Resolve cfg \<Rightarrow> cfg_rectangle cfg \<noteq> 2 | Threw e \<Rightarrow> True
    | Unsupported m \<Rightarrow> True) \<and>
   st_store overrideRun ! 2 = exampleStore ! 2 \<and>
   st_store overrideRun ! 2 = wideRectangle \<and>
   st_store overrideRun ! cfg_rectangle overrideConfig = clampedWideRectangle"
proof -
  have h1: "opt_rectangle rectangleOptions = Some 2" by (simp add: rectangleOptions_fields)
  have h2: "2 < length exampleStore" by (simp add: exampleStore_nth)
  have v: "st_store overrideRun ! 2 = wideRectangle"
    "st_store overrideRun ! cfg_rectangle overrideConfig = clampedWideRectangle"
    by (simp_all add: overrideRun_def exampleStore_def overrideConfig_def derivedConfig_def)
  from rectangle_override_not_mutated
    [OF h1 h2 success_rectangleOptions run_rectangleOptions] h1 h2
    success_rectangleOptions run_rectangleOptions v
  show ?thesis by blast
qed

section \<open>The minimum level\<close>

text \<open>
  C5. For a call that resolves, the tile indices of the southwest and the northeast
  corner of the clamped rectangle are those \<open>positionToTileXY\<close> of the scheme gives at
  the minimum level \<open>m\<close>, the caller's override or else the \<open>order\<close> attribute of the
  first tileset entry; the minimum level delivered is 0 when
  \<open>(|dx| + 1) * (|dy| + 1) > 4\<close> and \<open>m\<close> itself otherwise.
\<close>

theorem minimum_level_heuristic:
  assumes "metadataSuccess E opts u h xml = (Resolve cfg, h')"
  shows "\<exists>nodeList t0 ts swTile neTile.
     rootChildNodes xml = Inr nodeList \<and>
     sc_tilesetsList (scanNodes nodeList emptyScan) = t0 # ts \<and>
     (let m = (case opt_minimumLevel opts of
                 Some v \<Rightarrow> v
               | None \<Rightarrow> parseInt10 E (getAttribute t0 ''order''));
          r = h' ! cfg_rectangle cfg
      in positionToTileXY E (cfg_tilingScheme cfg) \<lparr>longitude = west r, latitude = south r\<rparr> m
           = Some swTile \<and>
         positionToTileXY E (cfg_tilingScheme cfg) \<lparr>longitude = east r, latitude = north r\<rparr> m
           = Some neTile \<and>
         cfg_minimumLevel cfg =
           (if (\<bar>tile_x neTile - tile_x swTile\<bar> + 1) * (\<bar>tile_y neTile - tile_y swTile\<bar> + 1) > 4
            then Fin 0 else m))"
proof -
  from assms obtain nodeList b t r h1 lvl where s:
    "rootChildNodes xml = Inr nodeList"
    "readBasics E opts (scanNodes nodeList emptyScan) = Inr b"
    "checkMinimumLevel E t (h' ! r) (b_minimumLevel b) = Inr lvl"
    "cfg_tilingScheme cfg = t" "cfg_rectangle cfg = r" "cfg_minimumLevel cfg = lvl"
    by (rule metadataSuccess_Resolve) simp
  from s(2) obtain t0 ts where b:
    "sc_tilesetsList (scanNodes nodeList emptyScan) = t0 # ts"
    "b_minimumLevel b = (case opt_minimumLevel opts of
                           Some v \<Rightarrow> v | None \<Rightarrow> parseInt10 E (getAttribute t0 ''order''))"
    by (rule readBasics_Inr)
  from s(3) obtain swTile neTile where c:
    "positionToTileXY E t \<lparr>longitude = west (h' ! r), latitude = south (h' ! r)\<rparr>
       (b_minimumLevel b) = Some swTile"
    "positionToTileXY E t \<lparr>longitude = east (h' ! r), latitude = north (h' ! r)\<rparr>
       (b_minimumLevel b) = Some neTile"
    "lvl = (if (\<bar>tile_x neTile - tile_x swTile\<bar> + 1) * (\<bar>tile_y neTile - tile_y swTile\<bar> + 1) > 4
            then Fin 0 else b_minimumLevel b)"
    by (rule checkMinimumLevel_Inr)
  show ?thesis
    apply (rule exI [of _ nodeList], rule exI [of _ t0], rule exI [of _ ts],
        rule exI [of _ swTile], rule exI [of _ neTile])
    using s b c by (simp add: Let_def)
qed

theorem minimum_level_heuristic_witness:
  "metadataSuccess exampleEnv rectangleOptions ''tiles'' exampleStore
     (document (fullSections ''mercator''))
     = (Resolve overrideConfig, exampleStore @ [clampedWideRectangle]) \<and>
   (\<exists>nodeList t0 ts swTile neTile.
     rootChildNodes (document (fullSections ''mercator'')) = Inr nodeList \<and>
     sc_tilesetsList (scanNodes nodeList emptyScan) = t0 # ts \<and>
     (let m = (case opt_minimumLevel rectangleOptions of
                 Some v \<Rightarrow> v
               | None \<Rightarrow> parseInt10 exampleEnv (getAttribute t0 ''order''));
          r = (exampleStore @ [clampedWideRectangle]) ! cfg_rectangle overrideConfig
      in positionToTileXY exampleEnv (cfg_tilingScheme overrideConfig)
           \<lparr>longitude = west r, latitude = south r\<rparr> m = Some swTile \<and>
         positionToTileXY exampleEnv (cfg_tilingScheme overrideConfig)
           \<lparr>longitude = east r, latitude = north r\<rparr> m = Some neTile \<and>
         cfg_minimumLevel overrideConfig =
           (if (\<bar>tile_x neTile - tile_x swTile\<bar> + 1) * (\<bar>tile_y neTile - tile_y swTile\<bar> + 1) > 4
            then Fin 0 else m))) \<and>
   parseInt10 exampleEnv (getAttribute (tileSetNode ''2'') ''order'') = Fin 2 \<and>
   cfg_minimumLevel overrideConfig = Fin 0 \<and>
   metadataSuccess exampleEnv noOptions ''tiles'' exampleStore
     (document (fullSections ''mercator''))
     = (Resolve derivedConfig, exampleStore @ [bboxRectangle]) \<and>
   cfg_minimumLevel derivedConfig = Fin 2"
proof -
  have v: "parseInt10 exampleEnv (getAttribute (tileSetNode ''2'') ''order'') = Fin 2"
    "cfg_minimumLevel overrideConfig = Fin 0" "cfg_minimumLevel derivedConfig = Fin 2"
    by (simp_all add: node_attributes exampleEnv_fields overrideConfig_def derivedConfig_def)
  from minimum_level_heuristic [OF success_rectangleOptions] success_rectangleOptions
    success_noOptions v
  show ?thesis by blast
qed

section \<open>Clamping\<close>

text \<open>
  C8. Clamping is idempotent: for every rectangle and every scheme rectangle, clamping a
  rectangle that has already been clamped to that scheme rectangle changes nothing.
  This holds for all number values, NaN and the infinities included.
\<close>

theorem clampToScheme_idempotent:
  "clampToScheme b (clampToScheme b r) = clampToScheme b r"
  by (rule rectangle.equality)
     (simp_all add: clampToScheme_edges clampToScheme_more js_gt_def)

end
